theory Spec2Isabelle
  imports Complex_Main "HOL-Library.Char_ord" "HOL-Library.List_Lexorder"
    "HOL-Library.Multiset"
begin

section \<open>Errors raised by the booking core\<close>

text \<open>
  Every exception class of the sources is a constructor carrying the constructor
  arguments of the class. \<open>JsError\<close> is a plain \<^verbatim>\<open>new Error(message)\<close>, as the seat
  entity throws. \<open>PrismaClientKnownRequestError\<close> carries the error code of the
  persistence client (\<^verbatim>\<open>P2002\<close> unique constraint, \<^verbatim>\<open>P2003\<close> foreign key).
\<close>

datatype failure =
    JsError string
  | SeatNotFoundError string
  | SeatNotAvailableError string string
  | UnauthorizedLockError string string
  | ConcurrencyError string string int
  | PrismaClientKnownRequestError string

section \<open>The seat entity (core/domain/seat.entity.ts)\<close>

datatype SeatStatus = AVAILABLE | LOCKED | SOLD

text \<open>The string values of the enum, as they appear in messages and errors.\<close>

fun SeatStatus_value :: "SeatStatus \<Rightarrow> string" where
  "SeatStatus_value AVAILABLE = ''AVAILABLE''"
| "SeatStatus_value LOCKED = ''LOCKED''"
| "SeatStatus_value SOLD = ''SOLD''"

text \<open>
  \<^verbatim>\<open>SeatProps\<close>. The version is the integer of the \<^verbatim>\<open>version\<close> column and is modelled
  as an unbounded integer; the price is a number the code only ever copies.
\<close>

record SeatProps =
  p_id :: string
  p_status :: SeatStatus
  p_userId :: "string option"
  p_version :: int
  p_price :: real
  p_seatNumber :: string
  p_eventId :: string

text \<open>The class \<^verbatim>\<open>Seat\<close> wraps one private, frozen \<^verbatim>\<open>props\<close> object.\<close>

datatype Seat = Seat (props: SeatProps)

definition create :: "string \<Rightarrow> string \<Rightarrow> string \<Rightarrow> real \<Rightarrow> Seat" where
  "create i e n p =
     Seat \<lparr>p_id = i, p_status = AVAILABLE, p_userId = None, p_version = 1,
           p_price = p, p_seatNumber = n, p_eventId = e\<rparr>"

definition fromPersistence :: "SeatProps \<Rightarrow> Seat" where
  "fromPersistence p = Seat p"

definition seat_id :: "Seat \<Rightarrow> string" where
  "seat_id s = p_id (props s)"

definition seat_status :: "Seat \<Rightarrow> SeatStatus" where
  "seat_status s = p_status (props s)"

definition seat_userId :: "Seat \<Rightarrow> string option" where
  "seat_userId s = p_userId (props s)"

definition seat_version :: "Seat \<Rightarrow> int" where
  "seat_version s = p_version (props s)"

definition seat_price :: "Seat \<Rightarrow> real" where
  "seat_price s = p_price (props s)"

definition seat_seatNumber :: "Seat \<Rightarrow> string" where
  "seat_seatNumber s = p_seatNumber (props s)"

definition seat_eventId :: "Seat \<Rightarrow> string" where
  "seat_eventId s = p_eventId (props s)"

text \<open>
  The three transitions. Each returns a new value built from a spread of the old
  \<^verbatim>\<open>props\<close>, or throws a plain error naming the current status.
\<close>

definition lock :: "Seat \<Rightarrow> string \<Rightarrow> failure + Seat" where
  "lock s u =
     (if p_status (props s) \<noteq> AVAILABLE
      then Inl (JsError (''Cannot lock seat: current status is '' @
                         SeatStatus_value (p_status (props s))))
      else Inr (Seat ((props s)\<lparr>p_status := LOCKED, p_userId := Some u,
                               p_version := p_version (props s) + 1\<rparr>)))"

definition sell :: "Seat \<Rightarrow> failure + Seat" where
  "sell s =
     (if p_status (props s) \<noteq> LOCKED
      then Inl (JsError (''Cannot sell seat: current status is '' @
                         SeatStatus_value (p_status (props s))))
      else Inr (Seat ((props s)\<lparr>p_status := SOLD,
                               p_version := p_version (props s) + 1\<rparr>)))"

definition release :: "Seat \<Rightarrow> failure + Seat" where
  "release s =
     (if p_status (props s) \<noteq> LOCKED
      then Inl (JsError (''Cannot release seat: current status is '' @
                         SeatStatus_value (p_status (props s))))
      else Inr (Seat ((props s)\<lparr>p_status := AVAILABLE, p_userId := None,
                               p_version := p_version (props s) + 1\<rparr>)))"

definition isAvailable :: "Seat \<Rightarrow> bool" where
  "isAvailable s = (p_status (props s) = AVAILABLE)"

definition isLocked :: "Seat \<Rightarrow> bool" where
  "isLocked s = (p_status (props s) = LOCKED)"

definition isSold :: "Seat \<Rightarrow> bool" where
  "isSold s = (p_status (props s) = SOLD)"

definition isLockedBy :: "Seat \<Rightarrow> string \<Rightarrow> bool" where
  "isLockedBy s u = (p_status (props s) = LOCKED \<and> p_userId (props s) = Some u)"

definition toJSON :: "Seat \<Rightarrow> SeatProps" where
  "toJSON s = props s"

text \<open>
  A history of a seat: the transitions applied, in order, to a freshly created seat.
  The run stops at the first transition that throws.
\<close>

datatype transition = Lock string | Sell | Release

fun apply_transition :: "Seat \<Rightarrow> transition \<Rightarrow> failure + Seat" where
  "apply_transition s (Lock u) = lock s u"
| "apply_transition s Sell = sell s"
| "apply_transition s Release = release s"

fun run_transitions :: "Seat \<Rightarrow> transition list \<Rightarrow> failure + Seat" where
  "run_transitions s [] = Inr s"
| "run_transitions s (t # ts) =
     (case apply_transition s t of
        Inl e \<Rightarrow> Inl e
      | Inr s' \<Rightarrow> run_transitions s' ts)"

section \<open>The relational store, as the Prisma client presents it\<close>

text \<open>
  The Prisma client and the database behind it are not code of the repository; the
  operations of this section state what the repository's code relies on. The
  \<^verbatim>\<open>seats\<close> table is the one of the migration: primary key \<^verbatim>\<open>id\<close>, a unique index on
  \<^verbatim>\<open>(event_id, seat_number)\<close> and a foreign key from \<^verbatim>\<open>event_id\<close> to \<^verbatim>\<open>events\<close>. The
  timestamp columns are left out: no code of the core reads them. Prices are taken to
  be values the \<^verbatim>\<open>DECIMAL(10,2)\<close> column holds exactly. The table is a list of rows;
  the store also keeps the statements it was sent, in order.
\<close>

datatype PrismaSeatStatus = P_AVAILABLE | P_LOCKED | P_SOLD

record PrismaSeat =
  row_id :: string
  row_eventId :: string
  row_seatNumber :: string
  row_status :: PrismaSeatStatus
  row_price :: real
  row_userId :: "string option"
  row_version :: int

datatype statement =
    FindUnique string
  | FindMany string
  | FindFirst string int
  | Create PrismaSeat
  | UpdateMany string int PrismaSeatStatus "string option" int

record database =
  seats :: "PrismaSeat list"
  events :: "string list"
  statements :: "statement list"

definition sent :: "database \<Rightarrow> statement \<Rightarrow> database" where
  "sent d q = d\<lparr>statements := statements d @ [q]\<rparr>"

text \<open>\<^verbatim>\<open>prisma.seat.findUnique({ where: { id } })\<close>\<close>

definition seat_findUnique :: "database \<Rightarrow> string \<Rightarrow> PrismaSeat option \<times> database" where
  "seat_findUnique d i = (find (\<lambda>r. row_id r = i) (seats d), sent d (FindUnique i))"

text \<open>
  \<^verbatim>\<open>prisma.seat.findMany({ where: { eventId }, orderBy: { seatNumber: 'asc' } })\<close>:
  an \<^verbatim>\<open>ORDER BY seat_number ASC\<close> on a text column. The order of the rows is that
  of the collation of the column, which is the database's: neither the query nor the
  migration sets one. The collation is therefore a parameter, given as the function
  that maps a text to its sort key; rows come back in ascending order of the keys.
\<close>

definition seat_findMany ::
  "(string \<Rightarrow> 'k::linorder) \<Rightarrow> database \<Rightarrow> string \<Rightarrow> PrismaSeat list \<times> database" where
  "seat_findMany collation d e =
     (sort_key (\<lambda>r. collation (row_seatNumber r)) (filter (\<lambda>r. row_eventId r = e) (seats d)),
      sent d (FindMany e))"

text \<open>The collation that compares texts character by character: a text is its own key.\<close>

definition character_order :: "string \<Rightarrow> string" where
  "character_order t = t"

text \<open>\<^verbatim>\<open>prisma.seat.findFirst({ where: { id, version } })\<close>\<close>

definition seat_findFirst ::
  "database \<Rightarrow> string \<Rightarrow> int \<Rightarrow> PrismaSeat option \<times> database" where
  "seat_findFirst d i v =
     (find (\<lambda>r. row_id r = i \<and> row_version r = v) (seats d), sent d (FindFirst i v))"

text \<open>
  \<^verbatim>\<open>prisma.seat.create({ data })\<close>: the insert is refused when it would break the
  primary key, the unique index or the foreign key; a refused insert stores nothing.
\<close>

definition seat_create ::
  "database \<Rightarrow> PrismaSeat \<Rightarrow> (failure + PrismaSeat) \<times> database" where
  "seat_create d r =
     (if \<exists>x \<in> set (seats d). row_id x = row_id r
      then (Inl (PrismaClientKnownRequestError ''P2002''), sent d (Create r))
      else if \<exists>x \<in> set (seats d).
                 row_eventId x = row_eventId r \<and> row_seatNumber x = row_seatNumber r
      then (Inl (PrismaClientKnownRequestError ''P2002''), sent d (Create r))
      else if row_eventId r \<notin> set (events d)
      then (Inl (PrismaClientKnownRequestError ''P2003''), sent d (Create r))
      else (Inr r, (sent d (Create r))\<lparr>seats := seats d @ [r]\<rparr>))"

text \<open>
  \<^verbatim>\<open>prisma.seat.updateMany({ where: { id, version }, data: { status, userId, version } })\<close>:
  every row matching the filter gets the three columns; the result is the number of
  rows matched.
\<close>

definition matches :: "string \<Rightarrow> int \<Rightarrow> PrismaSeat \<Rightarrow> bool" where
  "matches i v r = (row_id r = i \<and> row_version r = v)"

definition seat_updateMany ::
  "database \<Rightarrow> string \<Rightarrow> int \<Rightarrow> PrismaSeatStatus \<Rightarrow> string option \<Rightarrow> int \<Rightarrow> nat \<times> database" where
  "seat_updateMany d i v st u nv =
     (length (filter (matches i v) (seats d)),
      (sent d (UpdateMany i v st u nv))
        \<lparr>seats := map (\<lambda>r. if matches i v r
                            then r\<lparr>row_status := st, row_userId := u, row_version := nv\<rparr>
                            else r) (seats d)\<rparr>)"

section \<open>PrismaSeatRepository\<close>

fun mapPrismaStatusToDomain :: "PrismaSeatStatus \<Rightarrow> SeatStatus" where
  "mapPrismaStatusToDomain P_AVAILABLE = AVAILABLE"
| "mapPrismaStatusToDomain P_LOCKED = LOCKED"
| "mapPrismaStatusToDomain P_SOLD = SOLD"

fun mapDomainStatusToPrisma :: "SeatStatus \<Rightarrow> PrismaSeatStatus" where
  "mapDomainStatusToPrisma AVAILABLE = P_AVAILABLE"
| "mapDomainStatusToPrisma LOCKED = P_LOCKED"
| "mapDomainStatusToPrisma SOLD = P_SOLD"

definition mapToDomain :: "PrismaSeat \<Rightarrow> Seat" where
  "mapToDomain r =
     fromPersistence
       \<lparr>p_id = row_id r, p_status = mapPrismaStatusToDomain (row_status r),
        p_userId = row_userId r, p_version = row_version r, p_price = row_price r,
        p_seatNumber = row_seatNumber r, p_eventId = row_eventId r\<rparr>"

definition PrismaSeatRepository_findById ::
  "database \<Rightarrow> string \<Rightarrow> Seat option \<times> database" where
  "PrismaSeatRepository_findById d i =
     (case seat_findUnique d i of
        (None, d') \<Rightarrow> (None, d')
      | (Some prismaSeat, d') \<Rightarrow> (Some (mapToDomain prismaSeat), d'))"

definition PrismaSeatRepository_findByEventId ::
  "(string \<Rightarrow> 'k::linorder) \<Rightarrow> database \<Rightarrow> string \<Rightarrow> Seat list \<times> database" where
  "PrismaSeatRepository_findByEventId collation d e =
     (case seat_findMany collation d e of
        (prismaSeats, d') \<Rightarrow> (map mapToDomain prismaSeats, d'))"

definition PrismaSeatRepository_findByIdWithVersion ::
  "database \<Rightarrow> string \<Rightarrow> int \<Rightarrow> Seat option \<times> database" where
  "PrismaSeatRepository_findByIdWithVersion d i v =
     (case seat_findFirst d i v of
        (None, d') \<Rightarrow> (None, d')
      | (Some prismaSeat, d') \<Rightarrow> (Some (mapToDomain prismaSeat), d'))"

text \<open>The row that \<^verbatim>\<open>save\<close> hands to \<^verbatim>\<open>create\<close> for a seat of version 1.\<close>

definition create_data :: "SeatProps \<Rightarrow> PrismaSeat" where
  "create_data seatData =
     \<lparr>row_id = p_id seatData, row_eventId = p_eventId seatData,
      row_seatNumber = p_seatNumber seatData,
      row_status = mapDomainStatusToPrisma (p_status seatData),
      row_price = p_price seatData, row_userId = p_userId seatData,
      row_version = p_version seatData\<rparr>"

definition PrismaSeatRepository_save ::
  "database \<Rightarrow> Seat \<Rightarrow> (failure + Seat) \<times> database" where
  "PrismaSeatRepository_save d seat =
     (let seatData = toJSON seat;
          previousVersion = p_version seatData - 1
      in if p_version seatData = 1
         then (case seat_create d (create_data seatData) of
                 (Inl e, d') \<Rightarrow> (Inl e, d')
               | (Inr created, d') \<Rightarrow> (Inr (mapToDomain created), d'))
         else (case seat_updateMany d (p_id seatData) previousVersion
                      (mapDomainStatusToPrisma (p_status seatData))
                      (p_userId seatData) (p_version seatData) of
                 (affected, d') \<Rightarrow>
                   if affected = 0
                   then (Inl (ConcurrencyError ''Seat'' (p_id seatData) previousVersion), d')
                   else (Inr seat, d')))"

section \<open>RedisService (infrastructure/cache/RedisService.ts)\<close>

text \<open>
  A cached value is the JSON of one \<^verbatim>\<open>SeatProps\<close> or of a list of them. The Redis
  server is a map from keys to a value and the lifetime it was stored with; entries may
  expire, which no operation below depends on. Every method of the service wraps its
  Redis command in \<^verbatim>\<open>try/catch\<close> and swallows the failure, so the model carries a
  script of the commands to come: \<open>True\<close> when the next command throws (server
  unreachable), and no failure once the script is used up.
\<close>

datatype cached = CachedSeat SeatProps | CachedSeats "SeatProps list"

record redis =
  entries :: "string \<rightharpoonup> cached \<times> nat"
  faults :: "bool list"

definition command :: "redis \<Rightarrow> bool \<times> redis" where
  "command r = (case faults r of [] \<Rightarrow> (False, r) | f # fs \<Rightarrow> (f, r\<lparr>faults := fs\<rparr>))"

definition defaultTtl :: nat where
  "defaultTtl = 60"

definition RedisService_get :: "redis \<Rightarrow> string \<Rightarrow> cached option \<times> redis" where
  "RedisService_get r key =
     (case command r of
        (True, r') \<Rightarrow> (None, r')
      | (False, r') \<Rightarrow> (map_option fst (entries r' key), r'))"

definition RedisService_set :: "redis \<Rightarrow> string \<Rightarrow> cached \<Rightarrow> nat option \<Rightarrow> redis" where
  "RedisService_set r key val ttlSeconds =
     (let ttl = (case ttlSeconds of None \<Rightarrow> defaultTtl | Some t \<Rightarrow> t)
      in case command r of
           (True, r') \<Rightarrow> r'
         | (False, r') \<Rightarrow> r'\<lparr>entries := (entries r')(key \<mapsto> (val, ttl))\<rparr>)"

definition RedisService_delete :: "redis \<Rightarrow> string \<Rightarrow> redis" where
  "RedisService_delete r key =
     (case command r of
        (True, r') \<Rightarrow> r'
      | (False, r') \<Rightarrow> r'\<lparr>entries := (entries r')(key := None)\<rparr>)"

section \<open>CachedSeatRepository\<close>

definition CACHE_KEYS_seat :: "string \<Rightarrow> string" where
  "CACHE_KEYS_seat i = ''seat:'' @ i"

definition CACHE_KEYS_eventSeats :: "string \<Rightarrow> string" where
  "CACHE_KEYS_eventSeats e = ''event:'' @ e @ '':seats''"

definition DEFAULT_TTL_SECONDS :: nat where
  "DEFAULT_TTL_SECONDS = 60"

text \<open>
  The decorator holds the wrapped repository (here the store it talks to), the cache
  and the lifetime given to its constructor.
\<close>

record repository =
  db :: database
  cache :: redis
  ttlSeconds :: nat

text \<open>
  \<^verbatim>\<open>cache.get<T>\<close> is a cast in the source. The model reads a key at the shape the
  caller asks for; a value of the other shape, which no writer of the repository
  stores under that key, is read as a miss.
\<close>

definition CachedSeatRepository_findById ::
  "repository \<Rightarrow> string \<Rightarrow> Seat option \<times> repository" where
  "CachedSeatRepository_findById s i =
     (let cacheKey = CACHE_KEYS_seat i
      in case RedisService_get (cache s) cacheKey of
           (Some (CachedSeat c), c1) \<Rightarrow> (Some (fromPersistence c), s\<lparr>cache := c1\<rparr>)
         | (_, c1) \<Rightarrow>
             (case PrismaSeatRepository_findById (db s) i of
                (None, d1) \<Rightarrow> (None, s\<lparr>db := d1, cache := c1\<rparr>)
              | (Some seat, d1) \<Rightarrow>
                  (Some seat,
                   s\<lparr>db := d1,
                     cache := RedisService_set c1 cacheKey (CachedSeat (toJSON seat))
                                (Some (ttlSeconds s))\<rparr>)))"

definition CachedSeatRepository_findByEventId ::
  "(string \<Rightarrow> 'k::linorder) \<Rightarrow> repository \<Rightarrow> string \<Rightarrow> Seat list \<times> repository" where
  "CachedSeatRepository_findByEventId collation s e =
     (let cacheKey = CACHE_KEYS_eventSeats e
      in case RedisService_get (cache s) cacheKey of
           (Some (CachedSeats cs), c1) \<Rightarrow> (map fromPersistence cs, s\<lparr>cache := c1\<rparr>)
         | (_, c1) \<Rightarrow>
             (case PrismaSeatRepository_findByEventId collation (db s) e of
                (found, d1) \<Rightarrow>
                  (found,
                   s\<lparr>db := d1,
                     cache := (if length found > 0
                               then RedisService_set c1 cacheKey (CachedSeats (map toJSON found))
                                      (Some (ttlSeconds s))
                               else c1)\<rparr>)))"

definition CachedSeatRepository_findByIdWithVersion ::
  "repository \<Rightarrow> string \<Rightarrow> int \<Rightarrow> Seat option \<times> repository" where
  "CachedSeatRepository_findByIdWithVersion s i v =
     (case PrismaSeatRepository_findByIdWithVersion (db s) i v of
        (found, d1) \<Rightarrow> (found, s\<lparr>db := d1\<rparr>))"

definition CachedSeatRepository_save ::
  "repository \<Rightarrow> Seat \<Rightarrow> (failure + Seat) \<times> repository" where
  "CachedSeatRepository_save s seat =
     (case PrismaSeatRepository_save (db s) seat of
        (Inl e, d1) \<Rightarrow> (Inl e, s\<lparr>db := d1\<rparr>)
      | (Inr savedSeat, d1) \<Rightarrow>
          (let c1 = RedisService_delete (cache s) (CACHE_KEYS_seat (seat_id seat));
               c2 = RedisService_delete c1 (CACHE_KEYS_eventSeats (seat_eventId seat))
           in (Inr savedSeat, s\<lparr>db := d1, cache := c2\<rparr>)))"

section \<open>Domain events (core/events)\<close>

text \<open>
  What the running process reads from its surroundings when it builds and publishes
  an event: the clock, the correlation identifier of the ambient request context (if
  there is one) and a freshly generated identifier.
\<close>

record environ =
  now :: int
  context_correlationId :: "string option"
  uuidv4 :: string

record DomainEvent =
  eventType :: string
  ev_seatId :: string
  ev_eventId :: string
  ev_userId :: string
  ev_seatNumber :: string
  ev_price :: real
  ev_at :: int
  ev_expiresAt :: "int option"
  timestamp :: int
  correlationId :: "string option"

definition EVENT_QUEUES_TICKET_GENERATION :: string where
  "EVENT_QUEUES_TICKET_GENERATION = ''ticket_generation_queue''"

definition EVENT_QUEUES_NOTIFICATION :: string where
  "EVENT_QUEUES_NOTIFICATION = ''notification_queue''"

definition createSeatLockedEvent ::
  "environ \<Rightarrow> string \<Rightarrow> string \<Rightarrow> string \<Rightarrow> string \<Rightarrow> real \<Rightarrow> int option \<Rightarrow> string option
     \<Rightarrow> DomainEvent" where
  "createSeatLockedEvent env seatId eventId userId seatNumber price lockDurationMs cid =
     (let lockDuration = (case lockDurationMs of None \<Rightarrow> 15 * 60 * 1000 | Some d \<Rightarrow> d)
      in \<lparr>eventType = ''SEAT_LOCKED'', ev_seatId = seatId, ev_eventId = eventId,
          ev_userId = userId, ev_seatNumber = seatNumber, ev_price = price,
          ev_at = now env, ev_expiresAt = Some (now env + lockDuration),
          timestamp = now env, correlationId = cid\<rparr>)"

definition createSeatSoldEvent ::
  "environ \<Rightarrow> string \<Rightarrow> string \<Rightarrow> string \<Rightarrow> string \<Rightarrow> real \<Rightarrow> string option \<Rightarrow> DomainEvent" where
  "createSeatSoldEvent env seatId eventId userId seatNumber price cid =
     \<lparr>eventType = ''SEAT_SOLD'', ev_seatId = seatId, ev_eventId = eventId,
      ev_userId = userId, ev_seatNumber = seatNumber, ev_price = price,
      ev_at = now env, ev_expiresAt = None, timestamp = now env, correlationId = cid\<rparr>"

definition getCorrelationId :: "environ \<Rightarrow> string" where
  "getCorrelationId env =
     (case context_correlationId env of Some c \<Rightarrow> c | None \<Rightarrow> uuidv4 env)"

section \<open>RabbitMQClient (infrastructure/messaging/RabbitMQClient.ts)\<close>

text \<open>
  The client keeps whether it holds a connection and a channel, the queues it has
  asserted and its retry configuration. The transport is a script of the results of
  the \<^verbatim>\<open>amqplib\<close> calls to come (each call takes the next one; a used-up script means
  the call succeeds), the list of the delays slept between attempts, and the messages
  accepted by \<^verbatim>\<open>sendToQueue\<close>: queue, payload and \<^verbatim>\<open>x-correlation-id\<close> header.
\<close>

datatype amqp_result = Done | Backpressure | Thrown

record RabbitMQClient =
  connection :: bool
  channel :: bool
  isConnecting :: bool
  assertedQueues :: "string set"
  maxRetries :: nat
  initialDelayMs :: nat
  maxDelayMs :: nat
  backoffMultiplier :: nat
  script :: "amqp_result list"
  slept :: "nat list"
  accepted :: "(string \<times> DomainEvent \<times> string) list"

datatype transport_failure =
    AmqpError
  | ConnectFailed
  | ConnectionTimeout
  | ChannelNotAvailable

definition amqp :: "RabbitMQClient \<Rightarrow> amqp_result \<times> RabbitMQClient" where
  "amqp c = (case script c of [] \<Rightarrow> (Done, c) | x # xs \<Rightarrow> (x, c\<lparr>script := xs\<rparr>))"

definition isConnected :: "RabbitMQClient \<Rightarrow> bool" where
  "isConnected c = (connection c \<and> channel c)"

text \<open>
  One round of the retry loop of \<^verbatim>\<open>connect\<close> for each attempt left. A failed attempt
  that is not the last sleeps and then multiplies the delay, capped at the maximum.
\<close>

definition backoff :: "nat \<Rightarrow> nat \<Rightarrow> RabbitMQClient \<Rightarrow> nat \<times> RabbitMQClient" where
  "backoff left delay c =
     (if left > 0
      then (min (delay * backoffMultiplier c) (maxDelayMs c), c\<lparr>slept := slept c @ [delay]\<rparr>)
      else (delay, c))"

fun attempts :: "nat \<Rightarrow> nat \<Rightarrow> RabbitMQClient \<Rightarrow> bool \<times> RabbitMQClient" where
  "attempts 0 delay c = (False, c)"
| "attempts (Suc left) delay c =
     (case amqp c of
        (Thrown, c1) \<Rightarrow>
          (case backoff left delay c1 of (delay', c2) \<Rightarrow> attempts left delay' c2)
      | (_, c1) \<Rightarrow>
          (case amqp (c1\<lparr>connection := True\<rparr>) of
             (Thrown, c2) \<Rightarrow>
               (case backoff left delay c2 of (delay', c3) \<Rightarrow> attempts left delay' c3)
           | (_, c2) \<Rightarrow> (True, c2\<lparr>channel := True, isConnecting := False\<rparr>)))"

text \<open>
  A \<^verbatim>\<open>connect\<close> entered while another attempt is in flight waits for it. The attempt
  in flight belongs to another call, so the wait ends with the client as it stands.
\<close>

definition waitForConnection :: "RabbitMQClient \<Rightarrow> (transport_failure + unit) \<times> RabbitMQClient" where
  "waitForConnection c = (if \<not> isConnected c then (Inl ConnectionTimeout, c) else (Inr (), c))"

definition connect :: "RabbitMQClient \<Rightarrow> (transport_failure + unit) \<times> RabbitMQClient" where
  "connect c =
     (if connection c \<and> channel c then (Inr (), c)
      else if isConnecting c then waitForConnection c
      else (case attempts (maxRetries c) (initialDelayMs c) (c\<lparr>isConnecting := True\<rparr>) of
              (True, c1) \<Rightarrow> (Inr (), c1)
            | (False, c1) \<Rightarrow> (Inl ConnectFailed, c1\<lparr>isConnecting := False\<rparr>)))"

definition ensureConnection :: "RabbitMQClient \<Rightarrow> (transport_failure + unit) \<times> RabbitMQClient" where
  "ensureConnection c = (if \<not> isConnected c then connect c else (Inr (), c))"

definition assertQueue :: "RabbitMQClient \<Rightarrow> string \<Rightarrow> (transport_failure + unit) \<times> RabbitMQClient" where
  "assertQueue c queue =
     (if queue \<notin> assertedQueues c
      then (case amqp c of
              (Thrown, c1) \<Rightarrow> (Inl AmqpError, c1)
            | (_, c1) \<Rightarrow> (Inr (), c1\<lparr>assertedQueues := insert queue (assertedQueues c1)\<rparr>))
      else (Inr (), c))"

definition RabbitMQClient_publish ::
  "RabbitMQClient \<Rightarrow> string \<Rightarrow> DomainEvent \<Rightarrow> string \<Rightarrow> (transport_failure + bool) \<times> RabbitMQClient" where
  "RabbitMQClient_publish c queue message header =
     (case ensureConnection c of
        (Inl e, c1) \<Rightarrow> (Inl e, c1)
      | (Inr _, c1) \<Rightarrow>
          if \<not> channel c1 then (Inl ChannelNotAvailable, c1)
          else (case assertQueue c1 queue of
                  (Inl e, c2) \<Rightarrow> (Inl e, c2)
                | (Inr _, c2) \<Rightarrow>
                    (case amqp c2 of
                       (Thrown, c3) \<Rightarrow> (Inl AmqpError, c3)
                     | (r, c3) \<Rightarrow>
                         (Inr (r = Done),
                          c3\<lparr>accepted := accepted c3 @ [(queue, message, header)]\<rparr>))))"

section \<open>RabbitMQEventPublisher and NoOpEventPublisher\<close>

text \<open>
  A publisher is the RabbitMQ one, with its client and the lines it has logged (level
  and message), or the no-op one. \<^verbatim>\<open>publish\<close> returns a promise of nothing; the model
  returns \<open>Inl\<close> when that promise rejects.
\<close>

datatype publisher =
    RabbitMQEventPublisher RabbitMQClient "(string \<times> string) list"
  | NoOpEventPublisher

fun publish ::
  "environ \<Rightarrow> publisher \<Rightarrow> string \<Rightarrow> DomainEvent \<Rightarrow> (transport_failure + unit) \<times> publisher" where
  "publish env (RabbitMQEventPublisher c logged) queue event =
     (let cid = (case correlationId event of Some x \<Rightarrow> x | None \<Rightarrow> getCorrelationId env)
      in case RabbitMQClient_publish c queue event cid of
           (Inr _, c1) \<Rightarrow>
             (Inr (), RabbitMQEventPublisher c1 (logged @ [(''info'', ''Event published'')]))
         | (Inl e, c1) \<Rightarrow>
             (Inr (),
              RabbitMQEventPublisher c1 (logged @ [(''error'', ''Failed to publish event'')])))"
| "publish env NoOpEventPublisher queue event = (Inr (), NoOpEventPublisher)"

section \<open>BookingService (core/services/BookingService.ts)\<close>

text \<open>
  The service holds the repository it was given (the cached one, as the composition
  root wires it) and an optional event publisher. A publish is scheduled and not
  awaited: the model runs it after the save and drops its result, keeping only what it
  did to the publisher.
\<close>

record process =
  seatRepository :: repository
  eventPublisher :: "publisher option"

definition schedule ::
  "environ \<Rightarrow> string \<Rightarrow> DomainEvent \<Rightarrow> publisher option \<Rightarrow> publisher option" where
  "schedule env queue event p = map_option (\<lambda>q. snd (publish env q queue event)) p"

definition lockSeat ::
  "environ \<Rightarrow> process \<Rightarrow> string \<Rightarrow> string \<Rightarrow> (failure + Seat) \<times> process" where
  "lockSeat env w seatId userId =
     (case CachedSeatRepository_findById (seatRepository w) seatId of
        (None, r1) \<Rightarrow> (Inl (SeatNotFoundError seatId), w\<lparr>seatRepository := r1\<rparr>)
      | (Some seat, r1) \<Rightarrow>
          if \<not> isAvailable seat
          then (Inl (SeatNotAvailableError seatId (SeatStatus_value (seat_status seat))),
                w\<lparr>seatRepository := r1\<rparr>)
          else (case lock seat userId of
                  Inl e \<Rightarrow> (Inl e, w\<lparr>seatRepository := r1\<rparr>)
                | Inr lockedSeat \<Rightarrow>
                    (case CachedSeatRepository_save r1 lockedSeat of
                       (Inl e, r2) \<Rightarrow> (Inl e, w\<lparr>seatRepository := r2\<rparr>)
                     | (Inr _, r2) \<Rightarrow>
                         (Inr lockedSeat,
                          w\<lparr>seatRepository := r2,
                            eventPublisher :=
                              schedule env EVENT_QUEUES_NOTIFICATION
                                (createSeatLockedEvent env (seat_id lockedSeat)
                                   (seat_eventId lockedSeat) userId
                                   (seat_seatNumber lockedSeat) (seat_price lockedSeat)
                                   None None)
                                (eventPublisher w)\<rparr>))))"

definition releaseSeat ::
  "process \<Rightarrow> string \<Rightarrow> string \<Rightarrow> (failure + Seat) \<times> process" where
  "releaseSeat w seatId userId =
     (case CachedSeatRepository_findById (seatRepository w) seatId of
        (None, r1) \<Rightarrow> (Inl (SeatNotFoundError seatId), w\<lparr>seatRepository := r1\<rparr>)
      | (Some seat, r1) \<Rightarrow>
          if \<not> isLockedBy seat userId
          then (Inl (UnauthorizedLockError userId seatId), w\<lparr>seatRepository := r1\<rparr>)
          else (case release seat of
                  Inl e \<Rightarrow> (Inl e, w\<lparr>seatRepository := r1\<rparr>)
                | Inr releasedSeat \<Rightarrow>
                    (case CachedSeatRepository_save r1 releasedSeat of
                       (Inl e, r2) \<Rightarrow> (Inl e, w\<lparr>seatRepository := r2\<rparr>)
                     | (Inr _, r2) \<Rightarrow> (Inr releasedSeat, w\<lparr>seatRepository := r2\<rparr>))))"

definition confirmSale ::
  "environ \<Rightarrow> process \<Rightarrow> string \<Rightarrow> string \<Rightarrow> (failure + Seat) \<times> process" where
  "confirmSale env w seatId userId =
     (case CachedSeatRepository_findById (seatRepository w) seatId of
        (None, r1) \<Rightarrow> (Inl (SeatNotFoundError seatId), w\<lparr>seatRepository := r1\<rparr>)
      | (Some seat, r1) \<Rightarrow>
          if \<not> isLockedBy seat userId
          then (Inl (UnauthorizedLockError userId seatId), w\<lparr>seatRepository := r1\<rparr>)
          else (case sell seat of
                  Inl e \<Rightarrow> (Inl e, w\<lparr>seatRepository := r1\<rparr>)
                | Inr soldSeat \<Rightarrow>
                    (case CachedSeatRepository_save r1 soldSeat of
                       (Inl e, r2) \<Rightarrow> (Inl e, w\<lparr>seatRepository := r2\<rparr>)
                     | (Inr _, r2) \<Rightarrow>
                         (Inr soldSeat,
                          w\<lparr>seatRepository := r2,
                            eventPublisher :=
                              schedule env EVENT_QUEUES_TICKET_GENERATION
                                (createSeatSoldEvent env (seat_id soldSeat)
                                   (seat_eventId soldSeat) userId
                                   (seat_seatNumber soldSeat) (seat_price soldSeat) None)
                                (eventPublisher w)\<rparr>))))"

section \<open>The worker (worker.ts)\<close>

text \<open>
  A value found where a correlation identifier is expected. The worker types it as a
  string, but a header or a JSON field holds whatever the sender put there: a string or,
  for instance, a number.
\<close>

datatype scalar = Str string | Num int

text \<open>
  A delivered message: its delivery tag, the \<^verbatim>\<open>x-correlation-id\<close> header if present,
  and its content as \<^verbatim>\<open>JSON.parse\<close> sees it: text that does not parse, the JSON
  \<^verbatim>\<open>null\<close> (on which any property access throws), or any other value, read as an
  object whose fields may be missing.
\<close>

record SeatSoldMessage =
  m_seatId :: "string option"
  m_userId :: "string option"
  m_seatNumber :: "string option"
  m_correlationId :: "scalar option"

datatype content = Malformed | JsonNull | JsonObject SeatSoldMessage

record message =
  deliveryTag :: nat
  header_correlationId :: "scalar option"
  body :: content

datatype worker_failure = SyntaxError | TypeError | TaskError

text \<open>The calls the handler makes on the channel.\<close>

datatype channel_call = Ack message | Nack message bool bool

text \<open>
  The two downstream tasks of the sources are simulations: a timer between two log
  lines. Whether the work of each of them throws is left to the surroundings of the
  worker, so that the handler's failure path also covers a task that fails.
\<close>

record tasks =
  generatePDF_throws :: bool
  sendEmailNotification_throws :: bool

text \<open>
  The worker: the module variable \<^verbatim>\<open>currentCorrelationId\<close>, the calls made on the
  channel, the tasks completed and the lines logged (level and message).
\<close>

record worker =
  currentCorrelationId :: scalar
  calls :: "channel_call list"
  done_tasks :: "string list"
  lines_logged :: "(string \<times> string) list"

text \<open>Sequencing of two steps: the second runs when the first has not thrown.\<close>

definition and_then ::
  "(worker_failure + unit) \<times> worker \<Rightarrow> (worker \<Rightarrow> (worker_failure + unit) \<times> worker)
     \<Rightarrow> (worker_failure + unit) \<times> worker" where
  "and_then r f = (case r of (Inl e, w) \<Rightarrow> (Inl e, w) | (Inr _, w) \<Rightarrow> f w)"

text \<open>
  A call of the logger. Its format function evaluates
  \<^verbatim>\<open>currentCorrelationId.substring(0, 8)\<close> for every line, which throws a type error
  when the variable holds a value that is not a string.
\<close>

definition logger :: "string \<Rightarrow> string \<Rightarrow> worker \<Rightarrow> (worker_failure + unit) \<times> worker" where
  "logger level line w =
     (case currentCorrelationId w of
        Str c \<Rightarrow> (Inr (), w\<lparr>lines_logged := lines_logged w @ [(level, line)]\<rparr>)
      | Num n \<Rightarrow> (Inl TypeError, w))"

definition generatePDF :: "tasks \<Rightarrow> worker \<Rightarrow> (worker_failure + unit) \<times> worker" where
  "generatePDF t w =
     and_then (logger ''info'' ''Generating PDF'' w)
       (\<lambda>w1. if generatePDF_throws t then (Inl TaskError, w1)
              else logger ''info'' ''PDF generated''
                     (w1\<lparr>done_tasks := done_tasks w1 @ [''generatePDF'']\<rparr>))"

definition sendEmailNotification :: "tasks \<Rightarrow> worker \<Rightarrow> (worker_failure + unit) \<times> worker" where
  "sendEmailNotification t w =
     and_then (logger ''info'' ''Sending email'' w)
       (\<lambda>w1. if sendEmailNotification_throws t then (Inl TaskError, w1)
              else logger ''info'' ''Email sent to user''
                     (w1\<lparr>done_tasks := done_tasks w1 @ [''sendEmailNotification'']\<rparr>))"

definition processSeatSoldEvent ::
  "tasks \<Rightarrow> content \<Rightarrow> worker \<Rightarrow> (worker_failure + unit) \<times> worker" where
  "processSeatSoldEvent t messageContent w =
     (case messageContent of
        JsonObject m \<Rightarrow>
          and_then (logger ''info'' ''Processing SeatSoldEvent'' w)
            (\<lambda>w1. and_then (generatePDF t w1)
               (\<lambda>w2. and_then (sendEmailNotification t w2)
                  (\<lambda>w3. logger ''info'' ''All processing complete'' w3)))
      | _ \<Rightarrow> (Inl TypeError, w))"

text \<open>\<open>truthy\<close> is the test JavaScript applies to an optional string or number.\<close>

definition truthy :: "scalar option \<Rightarrow> bool" where
  "truthy x = (case x of None \<Rightarrow> False | Some (Str s) \<Rightarrow> s \<noteq> [] | Some (Num n) \<Rightarrow> n \<noteq> 0)"

text \<open>
  The body of the \<^verbatim>\<open>try\<close> block of the consumer callback: parse the content, resolve
  the correlation identifier (header, else body, else a fresh one) and store it, log the
  receipt (the arguments of that call read the content again), process the event,
  acknowledge, log the duration.
\<close>

definition try_block ::
  "tasks \<Rightarrow> string \<Rightarrow> message \<Rightarrow> worker \<Rightarrow> (worker_failure + unit) \<times> worker" where
  "try_block t fresh msg w =
     (case body msg of
        Malformed \<Rightarrow> (Inl SyntaxError, w)
      | messageContent \<Rightarrow>
          (case (case header_correlationId msg of
                   Some h \<Rightarrow> Inr h
                 | None \<Rightarrow>
                     (case messageContent of
                        JsonObject m \<Rightarrow>
                          Inr (case m_correlationId m of Some c \<Rightarrow> c | None \<Rightarrow> Str fresh)
                      | _ \<Rightarrow> Inl TypeError)) of
             Inl e \<Rightarrow> (Inl e, w)
           | Inr cid \<Rightarrow>
               (let w1 = w\<lparr>currentCorrelationId := cid\<rparr>
                in if \<not> truthy (header_correlationId msg) \<and> messageContent = JsonNull
                   then (Inl TypeError, w1)
                   else and_then (logger ''info'' ''Message received'' w1)
                          (\<lambda>w2. and_then (processSeatSoldEvent t messageContent w2)
                             (\<lambda>w3. logger ''info'' ''Processing complete''
                                      (w3\<lparr>calls := calls w3 @ [Ack msg]\<rparr>))))))"

text \<open>
  The \<^verbatim>\<open>catch\<close> block: log the error, negatively acknowledge with requeue, log the
  requeue.
\<close>

definition catch_block :: "message \<Rightarrow> worker \<Rightarrow> (worker_failure + unit) \<times> worker" where
  "catch_block msg w =
     and_then (logger ''error'' ''Error processing message'' w)
       (\<lambda>w1. logger ''warn'' ''Message requeued for retry''
                (w1\<lparr>calls := calls w1 @ [Nack msg False True]\<rparr>))"

text \<open>
  The consumer callback: \<^verbatim>\<open>try\<close>, \<^verbatim>\<open>catch\<close> and \<^verbatim>\<open>finally\<close>. The result is \<open>Inl\<close>
  when the callback itself ends in an exception, which is the case when its
  \<^verbatim>\<open>catch\<close> block throws.
\<close>

definition onMessage ::
  "tasks \<Rightarrow> string \<Rightarrow> message option \<Rightarrow> worker \<Rightarrow> (worker_failure + unit) \<times> worker" where
  "onMessage t fresh delivered w =
     (case delivered of
        None \<Rightarrow> (Inr (), w)
      | Some msg \<Rightarrow>
          (case try_block t fresh msg w of
             (Inr _, w1) \<Rightarrow> (Inr (), w1\<lparr>currentCorrelationId := Str ''idle''\<rparr>)
           | (Inl e, w1) \<Rightarrow>
               (case catch_block msg w1 of
                  (r, w2) \<Rightarrow> (r, w2\<lparr>currentCorrelationId := Str ''idle''\<rparr>))))"

section \<open>The queue the worker consumes from\<close>

text \<open>
  The broker's side of manual acknowledgement, as the transport guarantees it: a
  message is ready or delivered and not yet settled; with a prefetch of one, nothing is
  delivered while a message is unsettled; an acknowledgement removes the message for
  good; a negative acknowledgement removes it from the unsettled ones and, with
  \<open>requeue\<close>, puts it back at the head of the queue.
\<close>

record broker =
  ready :: "message list"
  unacked :: "message list"

definition deliver :: "broker \<Rightarrow> message option \<times> broker" where
  "deliver b =
     (case ready b of
        [] \<Rightarrow> (None, b)
      | m # ms \<Rightarrow>
          if unacked b = [] then (Some m, b\<lparr>ready := ms, unacked := [m]\<rparr>) else (None, b))"

fun settle :: "broker \<Rightarrow> channel_call \<Rightarrow> broker" where
  "settle b (Ack m) = b\<lparr>unacked := remove1 m (unacked b)\<rparr>"
| "settle b (Nack m allUpTo requeue) =
     b\<lparr>unacked := remove1 m (unacked b),
       ready := (if requeue \<and> m \<in> set (unacked b) then m # ready b else ready b)\<rparr>"

text \<open>One delivery: the broker hands over a message, the callback runs, its calls are settled.\<close>

definition consume_one :: "tasks \<Rightarrow> string \<Rightarrow> broker \<Rightarrow> worker \<Rightarrow> broker \<times> worker" where
  "consume_one t fresh b w =
     (case deliver b of
        (delivered, b1) \<Rightarrow>
          (let w1 = snd (onMessage t fresh delivered (w\<lparr>calls := []\<rparr>))
           in (foldl settle b1 (calls w1), w1)))"

section \<open>Predicates of the statements\<close>

text \<open>
  The holder invariant of the transitions: a seat has a holder exactly when it is not
  available.
\<close>

definition holder_inv :: "Seat \<Rightarrow> bool" where
  "holder_inv s = ((seat_userId s \<noteq> None) = (seat_status s \<noteq> AVAILABLE))"

text \<open>
  When the insert of a first-version seat is accepted by the table: no row has its
  id or its event and seat number, and its event exists.
\<close>

definition insertable :: "database \<Rightarrow> Seat \<Rightarrow> bool" where
  "insertable d s =
     ((\<forall>x \<in> set (seats d).
         row_id x \<noteq> seat_id s \<and>
         \<not> (row_eventId x = seat_eventId s \<and> row_seatNumber x = seat_seatNumber s)) \<and>
      seat_eventId s \<in> set (events d))"

text \<open>
  What a successful save of the seat \<open>s\<close> does to the table: the rows stored under the
  id of \<open>s\<close> at the version before that of \<open>s\<close>, of which there is one at least, take
  the status and the holder of \<open>s\<close> and have their version raised by exactly 1, and no
  other row changes; a seat of version 1 is appended as a new row instead.
\<close>

definition persisted_step :: "PrismaSeat list \<Rightarrow> PrismaSeat list \<Rightarrow> Seat \<Rightarrow> bool" where
  "persisted_step before after s =
     (if seat_version s = 1
      then after = before @ [create_data (toJSON s)]
      else (\<exists>row \<in> set before. matches (seat_id s) (seat_version s - 1) row) \<and>
           after =
             map (\<lambda>row. if matches (seat_id s) (seat_version s - 1) row
                        then row\<lparr>row_status := mapDomainStatusToPrisma (seat_status s),
                               row_userId := seat_userId s,
                               row_version := row_version row + 1\<rparr>
                        else row) before)"

text \<open>
  The processing of a message succeeds in full when its content parses to an object
  and neither downstream task throws.
\<close>

definition processed :: "tasks \<Rightarrow> message \<Rightarrow> bool" where
  "processed t msg =
     ((case body msg of JsonObject m \<Rightarrow> True | _ \<Rightarrow> False) \<and>
      \<not> generatePDF_throws t \<and> \<not> sendEmailNotification_throws t)"

text \<open>
  The correlation identifier the callback stores for a message is not a string: the
  content parses, and the header, or without a header the field of the content, holds
  a number.
\<close>

definition non_string_id :: "message \<Rightarrow> bool" where
  "non_string_id msg =
     (body msg \<noteq> Malformed \<and>
      (case header_correlationId msg of
         Some (Num n) \<Rightarrow> True
       | Some (Str c) \<Rightarrow> False
       | None \<Rightarrow>
           (case body msg of
              JsonObject m \<Rightarrow> (case m_correlationId m of Some (Num n) \<Rightarrow> True | _ \<Rightarrow> False)
            | _ \<Rightarrow> False)))"

section \<open>Concrete scenarios\<close>

text \<open>
  The seat \<^verbatim>\<open>s1\<close> of event \<^verbatim>\<open>evt-1\<close>: its row, available at version 1, the store that
  holds this row only, and the seat as created, as locked by \<^verbatim>\<open>u1\<close> and as sold to
  \<^verbatim>\<open>u1\<close>.
\<close>

definition s1_row :: PrismaSeat where
  "s1_row = \<lparr>row_id = ''s1'', row_eventId = ''evt-1'', row_seatNumber = ''A-1'',
     row_status = P_AVAILABLE, row_price = 100, row_userId = None, row_version = 1\<rparr>"

definition s1_db :: database where
  "s1_db = \<lparr>seats = [s1_row], events = [''evt-1''], statements = []\<rparr>"

definition s1_available :: Seat where
  "s1_available = create ''s1'' ''evt-1'' ''A-1'' 100"

definition s1_locked :: Seat where
  "s1_locked = Seat \<lparr>p_id = ''s1'', p_status = LOCKED, p_userId = Some ''u1'', p_version = 2,
     p_price = 100, p_seatNumber = ''A-1'', p_eventId = ''evt-1''\<rparr>"

definition s1_sold :: Seat where
  "s1_sold = Seat \<lparr>p_id = ''s1'', p_status = SOLD, p_userId = Some ''u1'', p_version = 3,
     p_price = 100, p_seatNumber = ''A-1'', p_eventId = ''evt-1''\<rparr>"

text \<open>The seat \<^verbatim>\<open>s1\<close> as released by \<^verbatim>\<open>u1\<close> after the lock.\<close>

definition s1_released :: Seat where
  "s1_released = Seat \<lparr>p_id = ''s1'', p_status = AVAILABLE, p_userId = None, p_version = 3,
     p_price = 100, p_seatNumber = ''A-1'', p_eventId = ''evt-1''\<rparr>"

text \<open>The locked seat \<^verbatim>\<open>s1\<close> with another price than the stored row has.\<close>

definition s1_locked_repriced :: Seat where
  "s1_locked_repriced =
     Seat \<lparr>p_id = ''s1'', p_status = LOCKED, p_userId = Some ''u1'', p_version = 2,
           p_price = 200, p_seatNumber = ''A-1'', p_eventId = ''evt-1''\<rparr>"

text \<open>A second seat of the event, not stored yet.\<close>

definition s2_available :: Seat where
  "s2_available = create ''s2'' ''evt-1'' ''A-2'' 100"

text \<open>Three seats of one event, inserted in the order \<^verbatim>\<open>A-2\<close>, \<^verbatim>\<open>A-10\<close>, \<^verbatim>\<open>A-1\<close>.\<close>

definition hall_db :: database where
  "hall_db =
     \<lparr>seats =
        [s1_row\<lparr>row_id := ''s2'', row_seatNumber := ''A-2''\<rparr>,
         s1_row\<lparr>row_id := ''s10'', row_seatNumber := ''A-10''\<rparr>,
         s1_row],
      events = [''evt-1''], statements = []\<rparr>"

text \<open>
  The repository over the store of \<^verbatim>\<open>s1\<close> with the available seat cached under its
  key, facing the script \<open>fs\<close> of cache failures.
\<close>

definition s1_entries :: "string \<rightharpoonup> cached \<times> nat" where
  "s1_entries = [''seat:s1'' \<mapsto> (CachedSeat (toJSON s1_available), 60)]"

definition cached_repo :: "bool list \<Rightarrow> repository" where
  "cached_repo fs =
     \<lparr>db = s1_db, cache = \<lparr>entries = s1_entries, faults = fs\<rparr>, ttlSeconds = 60\<rparr>"

text \<open>What a request reads from its surroundings.\<close>

definition s1_env :: environ where
  "s1_env = \<lparr>now = 1700000000000, context_correlationId = Some ''req-1'', uuidv4 = ''fresh''\<rparr>"

text \<open>
  A process serving the store of \<^verbatim>\<open>s1\<close> behind an empty, healthy cache, without a
  publisher.
\<close>

definition fresh_process :: process where
  "fresh_process =
     \<lparr>seatRepository =
        \<lparr>db = s1_db, cache = \<lparr>entries = Map.empty, faults = []\<rparr>, ttlSeconds = 60\<rparr>,
      eventPublisher = None\<rparr>"

text \<open>
  The same process facing a cache that answers six commands and then fails two: the
  two deletes of the second save it serves.
\<close>

definition flaky_process :: process where
  "flaky_process =
     \<lparr>seatRepository =
        \<lparr>db = s1_db,
         cache = \<lparr>entries = Map.empty,
                   faults = [False, False, False, False, False, False, True, True]\<rparr>,
         ttlSeconds = 60\<rparr>,
      eventPublisher = None\<rparr>"

text \<open>The same process once \<^verbatim>\<open>s1\<close> has been sold to \<^verbatim>\<open>u1\<close>.\<close>

definition sold_process :: process where
  "sold_process =
     \<lparr>seatRepository =
        \<lparr>db = \<lparr>seats = [s1_row\<lparr>row_status := P_SOLD, row_userId := Some ''u1'',
                                row_version := 3\<rparr>],
                events = [''evt-1''], statements = []\<rparr>,
         cache = \<lparr>entries = Map.empty, faults = []\<rparr>, ttlSeconds = 60\<rparr>,
      eventPublisher = None\<rparr>"

text \<open>
  A process in which another request has locked \<^verbatim>\<open>s1\<close> for \<^verbatim>\<open>u2\<close> in the store while
  the cache still holds the available seat read before that write.
\<close>

definition raced_process :: process where
  "raced_process =
     \<lparr>seatRepository =
        \<lparr>db = \<lparr>seats = [s1_row\<lparr>row_status := P_LOCKED, row_userId := Some ''u2'',
                                row_version := 2\<rparr>],
                events = [''evt-1''], statements = []\<rparr>,
         cache = \<lparr>entries = s1_entries, faults = []\<rparr>, ttlSeconds = 60\<rparr>,
      eventPublisher = None\<rparr>"

text \<open>
  A client with the default retry configuration whose broker is unreachable (every
  transport call throws), the sold event of \<^verbatim>\<open>s1\<close>, and the fresh process publishing
  through a given publisher.
\<close>

definition down_client :: RabbitMQClient where
  "down_client =
     \<lparr>connection = False, channel = False, isConnecting = False, assertedQueues = {},
      maxRetries = 5, initialDelayMs = 1000, maxDelayMs = 30000, backoffMultiplier = 2,
      script = [Thrown, Thrown, Thrown, Thrown, Thrown, Thrown, Thrown, Thrown, Thrown, Thrown],
      slept = [], accepted = []\<rparr>"

definition s1_sold_event :: DomainEvent where
  "s1_sold_event = createSeatSoldEvent s1_env ''s1'' ''evt-1'' ''u1'' ''A-1'' 100 None"

definition publishing_process :: "publisher \<Rightarrow> process" where
  "publishing_process p = fresh_process\<lparr>eventPublisher := Some p\<rparr>"

text \<open>
  A well-formed sold message, one whose content does not parse, the sold message
  without a header and with the number 123 as the \<^verbatim>\<open>correlationId\<close> of its content, a
  worker between two messages, and tasks that do not throw.
\<close>

definition sold_message :: message where
  "sold_message =
     \<lparr>deliveryTag = 1, header_correlationId = Some (Str ''req-1''),
      body = JsonObject \<lparr>m_seatId = Some ''s1'', m_userId = Some ''u1'',
                         m_seatNumber = Some ''A-1'', m_correlationId = None\<rparr>\<rparr>"

definition garbled_message :: message where
  "garbled_message = \<lparr>deliveryTag = 2, header_correlationId = None, body = Malformed\<rparr>"

definition numbered_message :: message where
  "numbered_message =
     \<lparr>deliveryTag = 3, header_correlationId = None,
      body = JsonObject \<lparr>m_seatId = Some ''s1'', m_userId = Some ''u1'',
                         m_seatNumber = Some ''A-1'', m_correlationId = Some (Num 123)\<rparr>\<rparr>"

definition idle_worker :: worker where
  "idle_worker =
     \<lparr>currentCorrelationId = Str ''idle'', calls = [], done_tasks = [], lines_logged = []\<rparr>"

definition sound_tasks :: tasks where
  "sound_tasks = \<lparr>generatePDF_throws = False, sendEmailNotification_throws = False\<rparr>"

section \<open>Verified properties\<close>

subsection \<open>The seat entity\<close>

lemma lock_Inr:
  "lock s u = Inr s' \<longleftrightarrow>
     p_status (props s) = AVAILABLE \<and>
     s' = Seat ((props s)\<lparr>p_status := LOCKED, p_userId := Some u,
                          p_version := p_version (props s) + 1\<rparr>)"
  by (auto simp: lock_def)

lemma sell_Inr:
  "sell s = Inr s' \<longleftrightarrow>
     p_status (props s) = LOCKED \<and>
     s' = Seat ((props s)\<lparr>p_status := SOLD, p_version := p_version (props s) + 1\<rparr>)"
  by (auto simp: sell_def)

lemma release_Inr:
  "release s = Inr s' \<longleftrightarrow>
     p_status (props s) = LOCKED \<and>
     s' = Seat ((props s)\<lparr>p_status := AVAILABLE, p_userId := None,
                          p_version := p_version (props s) + 1\<rparr>)"
  by (auto simp: release_def)

text \<open>
  C10. Reconstituting a seat from its own serialisation gives the seat back: each of
  id, eventId, seatNumber, price, status, userId and version is the one of the
  original, and so is the seat as a whole.
\<close>

theorem fromPersistence_toJSON:
  "seat_id (fromPersistence (toJSON s)) = seat_id s \<and>
   seat_eventId (fromPersistence (toJSON s)) = seat_eventId s \<and>
   seat_seatNumber (fromPersistence (toJSON s)) = seat_seatNumber s \<and>
   seat_price (fromPersistence (toJSON s)) = seat_price s \<and>
   seat_status (fromPersistence (toJSON s)) = seat_status s \<and>
   seat_userId (fromPersistence (toJSON s)) = seat_userId s \<and>
   seat_version (fromPersistence (toJSON s)) = seat_version s \<and>
   fromPersistence (toJSON s) = s"
  by (cases s) (simp add: fromPersistence_def toJSON_def)

theorem fromPersistence_toJSON_witness:
  "seat_status (fromPersistence (toJSON s1_sold)) = SOLD \<and>
   seat_userId (fromPersistence (toJSON s1_sold)) = Some ''u1'' \<and>
   seat_version (fromPersistence (toJSON s1_sold)) = 3"
  using fromPersistence_toJSON [of s1_sold]
  by (simp add: s1_sold_def seat_status_def seat_userId_def seat_version_def)

lemma holder_inv_create: "holder_inv (create i e n p)"
  by (simp add: holder_inv_def create_def seat_userId_def seat_status_def)

lemma holder_inv_step:
  assumes "holder_inv s" and "apply_transition s t = Inr s'"
  shows "holder_inv s'"
proof (cases t)
  case (Lock u)
  with assms(2) show ?thesis
    by (simp add: lock_Inr holder_inv_def seat_userId_def seat_status_def)
next
  case Sell
  with assms show ?thesis
    by (auto simp: sell_Inr holder_inv_def seat_userId_def seat_status_def)
next
  case Release
  with assms(2) show ?thesis
    by (simp add: release_Inr holder_inv_def seat_userId_def seat_status_def)
qed

lemma holder_inv_run:
  "holder_inv s \<Longrightarrow> run_transitions s ts = Inr s' \<Longrightarrow> holder_inv s'"
proof (induction ts arbitrary: s)
  case Nil
  then show ?case by simp
next
  case (Cons t ts)
  then obtain s1 where step: "apply_transition s t = Inr s1" and rest: "run_transitions s1 ts = Inr s'"
    by (auto split: sum.splits)
  from Cons.prems(1) step have "holder_inv s1" by (rule holder_inv_step)
  then show ?case using rest by (rule Cons.IH)
qed

text \<open>
  C5, as the code has it. For every seat reached from creation by lock, sell and
  release transitions, the holder (userId) is non-null iff the status is LOCKED or
  SOLD, that is, iff the seat is not AVAILABLE; and a sell of such a seat, when it
  succeeds, goes from LOCKED to SOLD and keeps the holder, who is then the buyer.
\<close>

theorem holder_iff_not_available:
  assumes "run_transitions (create i e n p) ts = Inr s"
  shows "((seat_userId s \<noteq> None) = (seat_status s \<noteq> AVAILABLE)) \<and>
         (sell s = Inr s' \<longrightarrow>
            seat_status s = LOCKED \<and> seat_status s' = SOLD \<and>
            seat_userId s' = seat_userId s \<and> seat_userId s' \<noteq> None)"
proof -
  have inv: "holder_inv s"
    using holder_inv_create assms by (rule holder_inv_run)
  then have first: "(seat_userId s \<noteq> None) = (seat_status s \<noteq> AVAILABLE)"
    by (simp add: holder_inv_def)
  have "seat_status s = LOCKED \<and> seat_status s' = SOLD \<and>
        seat_userId s' = seat_userId s \<and> seat_userId s' \<noteq> None" if "sell s = Inr s'"
    using that first by (auto simp: sell_Inr seat_status_def seat_userId_def)
  with first show ?thesis by blast
qed

theorem holder_iff_not_available_witness:
  "run_transitions (create ''s1'' ''evt-1'' ''A-1'' 100) [Lock ''u1''] = Inr s1_locked \<and>
   sell s1_locked = Inr s1_sold \<and>
   seat_userId s1_locked \<noteq> None \<and> seat_status s1_locked = LOCKED \<and>
   seat_status s1_sold = SOLD \<and> seat_userId s1_sold = Some ''u1''"
proof -
  have run: "run_transitions (create ''s1'' ''evt-1'' ''A-1'' 100) [Lock ''u1''] = Inr s1_locked"
    by (simp add: create_def lock_def s1_locked_def)
  have sale: "sell s1_locked = Inr s1_sold"
    by (simp add: sell_def s1_locked_def s1_sold_def)
  from holder_iff_not_available [OF run, of s1_sold] sale run show ?thesis
    by (simp add: s1_locked_def seat_userId_def seat_status_def)
qed

text \<open>
  The claim C5 as it is worded fails on the code: the seat created, locked by
  \<^verbatim>\<open>u1\<close> and sold is reachable, has a holder and is not LOCKED.
\<close>

theorem holder_iff_locked_counterexample:
  "run_transitions (create ''s1'' ''evt-1'' ''A-1'' 100) [Lock ''u1'', Sell] = Inr s1_sold \<and>
   seat_userId s1_sold \<noteq> None \<and> seat_status s1_sold \<noteq> LOCKED"
  by (simp add: create_def lock_def sell_def s1_sold_def seat_userId_def seat_status_def)

subsection \<open>The store and PrismaSeatRepository\<close>

lemma sent_simps [simp]:
  "seats (sent d q) = seats d"
  "events (sent d q) = events d"
  "statements (sent d q) = statements d @ [q]"
  by (simp_all add: sent_def)

lemma mapToDomain_create_data [simp]: "mapToDomain (create_data (toJSON s)) = s"
proof (cases s)
  case (Seat p)
  have "mapPrismaStatusToDomain (mapDomainStatusToPrisma x) = x" for x
    by (cases x) simp_all
  with Seat show ?thesis
    by (simp add: mapToDomain_def create_data_def toJSON_def fromPersistence_def)
qed

lemma map_unmatched:
  assumes "\<not> (\<exists>r \<in> set rs. P r)"
  shows "map (\<lambda>r. if P r then f r else r) rs = rs"
  using assms by (induction rs) auto

lemma filter_matches_empty:
  "(length (filter P rs) = 0) = (\<not> (\<exists>r \<in> set rs. P r))"
  by (induction rs) auto

lemma save_update_branch:
  assumes "seat_version s \<noteq> 1"
  shows "PrismaSeatRepository_save d s =
     (if \<exists>r \<in> set (seats d). matches (seat_id s) (seat_version s - 1) r
      then (Inr s,
            (sent d (UpdateMany (seat_id s) (seat_version s - 1)
                       (mapDomainStatusToPrisma (seat_status s)) (seat_userId s)
                       (seat_version s)))
              \<lparr>seats := map (\<lambda>r. if matches (seat_id s) (seat_version s - 1) r
                                  then r\<lparr>row_status := mapDomainStatusToPrisma (seat_status s),
                                         row_userId := seat_userId s,
                                         row_version := seat_version s\<rparr>
                                  else r) (seats d)\<rparr>)
      else (Inl (ConcurrencyError ''Seat'' (seat_id s) (seat_version s - 1)),
            sent d (UpdateMany (seat_id s) (seat_version s - 1)
                      (mapDomainStatusToPrisma (seat_status s)) (seat_userId s)
                      (seat_version s))))"
proof -
  let ?hit = "matches (seat_id s) (seat_version s - 1)"
  let ?q = "UpdateMany (seat_id s) (seat_version s - 1)
              (mapDomainStatusToPrisma (seat_status s)) (seat_userId s) (seat_version s)"
  let ?upd = "\<lambda>r. if ?hit r
                   then r\<lparr>row_status := mapDomainStatusToPrisma (seat_status s),
                          row_userId := seat_userId s, row_version := seat_version s\<rparr>
                   else r"
  have unfolded: "PrismaSeatRepository_save d s =
      (if length (filter ?hit (seats d)) = 0
       then (Inl (ConcurrencyError ''Seat'' (seat_id s) (seat_version s - 1)),
             (sent d ?q)\<lparr>seats := map ?upd (seats d)\<rparr>)
       else (Inr s, (sent d ?q)\<lparr>seats := map ?upd (seats d)\<rparr>))"
    using assms
    by (simp add: PrismaSeatRepository_save_def seat_updateMany_def toJSON_def Let_def
        seat_id_def seat_version_def seat_status_def seat_userId_def)
  show ?thesis
  proof (cases "\<exists>r \<in> set (seats d). ?hit r")
    case True
    then have "length (filter ?hit (seats d)) \<noteq> 0"
      by (simp only: filter_matches_empty) simp
    with True unfolded show ?thesis by simp
  next
    case False
    then have none: "length (filter ?hit (seats d)) = 0"
      by (simp only: filter_matches_empty) simp
    have "map ?upd (seats d) = seats d"
      using False by (rule map_unmatched)
    then have "(sent d ?q)\<lparr>seats := map ?upd (seats d)\<rparr> = sent d ?q"
      by (simp add: sent_def)
    with False none unfolded show ?thesis by simp
  qed
qed

lemma create_data_keys [simp]:
  "row_id (create_data p) = p_id p"
  "row_eventId (create_data p) = p_eventId p"
  "row_seatNumber (create_data p) = p_seatNumber p"
  by (simp_all add: create_data_def)

lemma save_create_branch:
  assumes "seat_version s = 1"
  shows "PrismaSeatRepository_save d s =
     (if insertable d s
      then (Inr s, (sent d (Create (create_data (toJSON s))))
                     \<lparr>seats := seats d @ [create_data (toJSON s)]\<rparr>)
      else (Inl (PrismaClientKnownRequestError
                   (if (\<forall>x \<in> set (seats d).
                          row_id x \<noteq> seat_id s \<and>
                          \<not> (row_eventId x = seat_eventId s \<and>
                             row_seatNumber x = seat_seatNumber s))
                    then ''P2003'' else ''P2002'')),
            sent d (Create (create_data (toJSON s)))))"
proof -
  have v: "p_version (toJSON s) = 1"
    using assms by (simp add: seat_version_def toJSON_def)
  have keys: "p_id (toJSON s) = seat_id s" "p_eventId (toJSON s) = seat_eventId s"
    "p_seatNumber (toJSON s) = seat_seatNumber s"
    by (simp_all add: toJSON_def seat_id_def seat_eventId_def seat_seatNumber_def)
  show ?thesis
    by (auto simp: PrismaSeatRepository_save_def seat_create_def Let_def insertable_def v keys)
qed


text \<open>
  C1, as the code has it. For every seat record with version v >= 2, save sends the
  store one statement, a conditional update matching the record's id and the stored
  version v-1. If no row matches, save raises the concurrency error carrying
  \<^verbatim>\<open>Seat\<close>, the record's id and v-1, and the table is as before: nothing is retried.
  If a row matches, save returns the record, and the matching row takes the record's
  status, userId and version while keeping its own eventId, seatNumber and price.
  For a record with version 1, save sends one insert of the record's seven fields: the
  table gains that row when no row has its id or its event and seat number and its
  event exists, and otherwise the insert is refused and the table is as before.
\<close>

theorem save_optimistic_locking:
  assumes "PrismaSeatRepository_save d s = (res, d')"
  shows
    "(2 \<le> seat_version s \<longrightarrow>
        statements d' =
          statements d @
            [UpdateMany (seat_id s) (seat_version s - 1)
               (mapDomainStatusToPrisma (seat_status s)) (seat_userId s) (seat_version s)] \<and>
        (if \<exists>r \<in> set (seats d). matches (seat_id s) (seat_version s - 1) r
         then res = Inr s \<and>
              seats d' =
                map (\<lambda>r. if matches (seat_id s) (seat_version s - 1) r
                         then r\<lparr>row_status := mapDomainStatusToPrisma (seat_status s),
                                row_userId := seat_userId s,
                                row_version := seat_version s\<rparr>
                         else r) (seats d)
         else res = Inl (ConcurrencyError ''Seat'' (seat_id s) (seat_version s - 1)) \<and>
              seats d' = seats d)) \<and>
     (seat_version s = 1 \<longrightarrow>
        statements d' = statements d @ [Create (create_data (toJSON s))] \<and>
        (if insertable d s
         then res = Inr s \<and> seats d' = seats d @ [create_data (toJSON s)]
         else (\<exists>code. res = Inl (PrismaClientKnownRequestError code)) \<and>
              seats d' = seats d))"
proof (intro conjI impI)
  assume "2 \<le> seat_version s"
  then have "seat_version s \<noteq> 1" by simp
  from save_update_branch [OF this, of d] assms
  show "statements d' =
          statements d @
            [UpdateMany (seat_id s) (seat_version s - 1)
               (mapDomainStatusToPrisma (seat_status s)) (seat_userId s) (seat_version s)]"
    and "if \<exists>r \<in> set (seats d). matches (seat_id s) (seat_version s - 1) r
         then res = Inr s \<and>
              seats d' =
                map (\<lambda>r. if matches (seat_id s) (seat_version s - 1) r
                         then r\<lparr>row_status := mapDomainStatusToPrisma (seat_status s),
                                row_userId := seat_userId s,
                                row_version := seat_version s\<rparr>
                         else r) (seats d)
         else res = Inl (ConcurrencyError ''Seat'' (seat_id s) (seat_version s - 1)) \<and>
              seats d' = seats d"
    by (auto split: if_splits)
next
  assume "seat_version s = 1"
  from save_create_branch [OF this, of d] assms
  show "statements d' = statements d @ [Create (create_data (toJSON s))]"
    and "if insertable d s
         then res = Inr s \<and> seats d' = seats d @ [create_data (toJSON s)]
         else (\<exists>code. res = Inl (PrismaClientKnownRequestError code)) \<and>
              seats d' = seats d"
    by (auto split: if_splits)
qed

lemma s1_scenario [simp]:
  "seat_id s1_locked = ''s1''" "seat_version s1_locked = 2"
  "seat_status s1_locked = LOCKED" "seat_userId s1_locked = Some ''u1''"
  "seat_eventId s1_locked = ''evt-1''"
  "seats s1_db = [s1_row]" "statements s1_db = []" "events s1_db = [''evt-1'']"
  "matches ''s1'' 1 s1_row"
  by (simp_all add: s1_locked_def s1_db_def s1_row_def matches_def seat_id_def
      seat_version_def seat_status_def seat_userId_def seat_eventId_def)

theorem save_optimistic_locking_witness:
  "fst (PrismaSeatRepository_save s1_db s1_locked) = Inr s1_locked \<and>
   statements (snd (PrismaSeatRepository_save s1_db s1_locked)) =
     [UpdateMany ''s1'' 1 P_LOCKED (Some ''u1'') 2] \<and>
   seats (snd (PrismaSeatRepository_save s1_db s1_locked)) =
     [s1_row\<lparr>row_status := P_LOCKED, row_userId := Some ''u1'', row_version := 2\<rparr>] \<and>
   fst (PrismaSeatRepository_save s1_db s1_sold) = Inl (ConcurrencyError ''Seat'' ''s1'' 2) \<and>
   statements (snd (PrismaSeatRepository_save s1_db s1_sold)) =
     [UpdateMany ''s1'' 2 P_SOLD (Some ''u1'') 3] \<and>
   seats (snd (PrismaSeatRepository_save s1_db s1_sold)) = [s1_row] \<and>
   fst (PrismaSeatRepository_save s1_db s2_available) = Inr s2_available \<and>
   seats (snd (PrismaSeatRepository_save s1_db s2_available)) =
     [s1_row, s1_row\<lparr>row_id := ''s2'', row_seatNumber := ''A-2''\<rparr>]"
proof -
  have sold: "seat_id s1_sold = ''s1''" "seat_version s1_sold = 3"
    "seat_status s1_sold = SOLD" "seat_userId s1_sold = Some ''u1''"
    by (simp_all add: s1_sold_def seat_id_def seat_version_def seat_status_def seat_userId_def)
  have second: "seat_version s2_available = 1" "insertable s1_db s2_available"
    "create_data (toJSON s2_available) = s1_row\<lparr>row_id := ''s2'', row_seatNumber := ''A-2''\<rparr>"
    by (simp_all add: s2_available_def create_def seat_version_def insertable_def s1_row_def
        seat_id_def seat_eventId_def seat_seatNumber_def create_data_def toJSON_def)
  have stale: "\<not> matches ''s1'' 2 s1_row"
    by (simp add: matches_def s1_row_def)
  from save_optimistic_locking [OF surjective_pairing, where d = s1_db and s = s1_locked]
    save_optimistic_locking [OF surjective_pairing, where d = s1_db and s = s1_sold]
    save_optimistic_locking [OF surjective_pairing, where d = s1_db and s = s2_available]
  show ?thesis
    by (simp add: sold second stale)
qed

text \<open>
  The claim C1 as it is worded fails on the code: the update writes status, userId and
  version only. Saving the locked seat with a price of 200 over the stored row priced
  100 matches the row and succeeds, and the stored record read back is the locked seat
  priced 100, not the record given.
\<close>

theorem save_stores_given_record_counterexample:
  "fst (PrismaSeatRepository_save s1_db s1_locked_repriced) = Inr s1_locked_repriced \<and>
   fst (PrismaSeatRepository_findById
          (snd (PrismaSeatRepository_save s1_db s1_locked_repriced)) ''s1'') = Some s1_locked \<and>
   s1_locked \<noteq> s1_locked_repriced"
  by (simp add: PrismaSeatRepository_save_def PrismaSeatRepository_findById_def
      seat_updateMany_def seat_findUnique_def toJSON_def Let_def matches_def mapToDomain_def
      fromPersistence_def s1_db_def s1_row_def s1_locked_def s1_locked_repriced_def)

text \<open>
  C7, as the code has it. For every eventId, findByEventId returns exactly the event's
  seat records, ordered ascending by seat number in the order of the database's
  collation of the seat-number column, whatever that collation is; findByEventId
  applies no comparison of its own, so the order is numeric-aware only if the collation
  is (under the collation that compares character by character, \<^verbatim>\<open>A-10\<close> sorts before
  \<^verbatim>\<open>A-2\<close>).
\<close>

theorem findByEventId_collation_order:
  "sorted (map (\<lambda>seat. collation (seat_seatNumber seat))
             (fst (PrismaSeatRepository_findByEventId collation d e))) \<and>
   mset (fst (PrismaSeatRepository_findByEventId collation d e)) =
     mset (map mapToDomain (filter (\<lambda>r. row_eventId r = e) (seats d)))"
proof -
  have key: "(\<lambda>seat. collation (seat_seatNumber seat)) \<circ> mapToDomain =
      (\<lambda>r. collation (row_seatNumber r))"
    by (rule ext) (simp add: seat_seatNumber_def mapToDomain_def fromPersistence_def)
  show ?thesis
    by (simp add: PrismaSeatRepository_findByEventId_def seat_findMany_def key)
qed

theorem findByEventId_collation_order_witness:
  "sorted (map (\<lambda>seat. character_order (seat_seatNumber seat))
             (fst (PrismaSeatRepository_findByEventId character_order hall_db ''evt-1''))) \<and>
   length (fst (PrismaSeatRepository_findByEventId character_order hall_db ''evt-1'')) = 3 \<and>
   character_order ''A-10'' < character_order ''A-2''"
proof -
  let ?found = "fst (PrismaSeatRepository_findByEventId character_order hall_db ''evt-1'')"
  note order = findByEventId_collation_order [of character_order hall_db "''evt-1''"]
  from order have "mset ?found =
      mset (map mapToDomain (filter (\<lambda>r. row_eventId r = ''evt-1'') (seats hall_db)))"
    by (rule conjunct2)
  then have "length ?found =
      length (map mapToDomain (filter (\<lambda>r. row_eventId r = ''evt-1'') (seats hall_db)))"
    by (rule mset_eq_length)
  also have "\<dots> = 3"
    by (simp add: hall_db_def s1_row_def)
  finally show ?thesis
    using order by (simp add: character_order_def)
qed

text \<open>
  The claim C7 as it is worded fails on the code: of the seats \<^verbatim>\<open>A-2\<close>, \<^verbatim>\<open>A-10\<close> and
  \<^verbatim>\<open>A-1\<close> of one event, in a database that compares text character by character,
  findByEventId returns \<^verbatim>\<open>A-10\<close> before \<^verbatim>\<open>A-2\<close>.
\<close>

theorem findByEventId_numeric_order_counterexample:
  "map seat_seatNumber (fst (PrismaSeatRepository_findByEventId character_order hall_db ''evt-1'')) =
     [''A-1'', ''A-10'', ''A-2'']"
  by (simp add: PrismaSeatRepository_findByEventId_def seat_findMany_def hall_db_def s1_row_def
      mapToDomain_def fromPersistence_def seat_seatNumber_def character_order_def)

subsection \<open>The cache layer\<close>

lemma command_result:
  assumes "command c = (f, c')"
  shows "entries c' = entries c" and "faults c' = tl (faults c)"
    and "f = (faults c \<noteq> [] \<and> hd (faults c))"
  using assms by (auto simp: command_def split: list.splits)

lemma RedisService_get_miss:
  assumes "entries c key = None"
  shows "fst (RedisService_get c key) = None"
  using assms
  by (auto simp: RedisService_get_def split: prod.splits bool.splits dest: command_result(1))

lemma RedisService_delete_entries:
  "entries (RedisService_delete c key) =
     (if fst (command c) then entries c else (entries c)(key := None))"
  by (auto simp: RedisService_delete_def split: prod.splits bool.splits dest: command_result(1))

lemma RedisService_delete_faults: "faults (RedisService_delete c key) = tl (faults c)"
  by (auto simp: RedisService_delete_def split: prod.splits bool.splits dest: command_result(2))

lemma command_fails: "fst (command c) = (faults c \<noteq> [] \<and> hd (faults c))"
  using command_result(3) [OF surjective_pairing, of c] by simp

lemma cached_findById_miss:
  assumes "fst (RedisService_get (cache r) (CACHE_KEYS_seat i)) = None"
  shows "fst (CachedSeatRepository_findById r i) = fst (PrismaSeatRepository_findById (db r) i)"
    and "statements (db (snd (CachedSeatRepository_findById r i))) =
           statements (db r) @ [FindUnique i]"
  using assms
  by (auto simp: CachedSeatRepository_findById_def PrismaSeatRepository_findById_def
      seat_findUnique_def Let_def split: prod.splits option.splits)

lemma cached_findById_seats [simp]:
  "seats (db (snd (CachedSeatRepository_findById r i))) = seats (db r)"
  by (auto simp: CachedSeatRepository_findById_def PrismaSeatRepository_findById_def
      seat_findUnique_def Let_def split: prod.splits option.splits cached.splits)

lemma cached_save_fst:
  "fst (CachedSeatRepository_save r s) = fst (PrismaSeatRepository_save (db r) s)"
  by (auto simp: CachedSeatRepository_save_def Let_def split: prod.splits sum.splits)

lemma cached_save_db:
  "db (snd (CachedSeatRepository_save r s)) = snd (PrismaSeatRepository_save (db r) s)"
  by (auto simp: CachedSeatRepository_save_def Let_def split: prod.splits sum.splits)

lemma cached_save_cache:
  assumes "fst (CachedSeatRepository_save r s) = Inr saved"
  shows "cache (snd (CachedSeatRepository_save r s)) =
     RedisService_delete (RedisService_delete (cache r) (CACHE_KEYS_seat (seat_id s)))
       (CACHE_KEYS_eventSeats (seat_eventId s))"
  using assms
  by (auto simp: CachedSeatRepository_save_def Let_def split: prod.splits sum.splits)

lemma prisma_save_failure:
  assumes "fst (PrismaSeatRepository_save d s) = Inl e"
  shows "seats (snd (PrismaSeatRepository_save d s)) = seats d"
proof (cases "seat_version s = 1")
  case True
  from assms show ?thesis
    unfolding save_create_branch [OF True] by (simp split: if_splits)
next
  case False
  from assms show ?thesis
    unfolding save_update_branch [OF False] by (simp split: if_splits)
qed

lemma cached_save_failure:
  assumes "fst (CachedSeatRepository_save r s) = Inl e"
  shows "seats (db (snd (CachedSeatRepository_save r s))) = seats (db r)"
  using assms prisma_save_failure [of "db r" s e]
  by (simp add: cached_save_fst cached_save_db)

lemma prisma_save_success_versions:
  assumes "fst (PrismaSeatRepository_save d s) = Inr s''" and "seat_version s \<noteq> 1"
  shows "map row_version (seats (snd (PrismaSeatRepository_save d s))) =
           map (\<lambda>r. if matches (seat_id s) (seat_version s - 1) r
                    then row_version r + 1 else row_version r) (seats d)"
    and "\<exists>r \<in> set (seats d). matches (seat_id s) (seat_version s - 1) r"
  using assms(1) unfolding save_update_branch [OF assms(2)]
  by (auto simp: matches_def split: if_splits)


lemma mapPrismaStatusToDomain_inverse [simp]:
  "mapPrismaStatusToDomain (mapDomainStatusToPrisma x) = x"
  by (cases x) simp_all

lemma find_after_update:
  assumes "distinct (map row_id rs)" and "\<exists>r \<in> set rs. matches i v r"
  shows "\<exists>r0 \<in> set rs. row_id r0 = i \<and>
           find (\<lambda>r. row_id r = i)
             (map (\<lambda>r. if matches i v r
                       then r\<lparr>row_status := st, row_userId := u, row_version := nv\<rparr>
                       else r) rs) =
           Some (r0\<lparr>row_status := st, row_userId := u, row_version := nv\<rparr>)"
  using assms
proof (induction rs)
  case Nil
  then show ?case by simp
next
  case (Cons a rs)
  show ?case
  proof (cases "row_id a = i")
    case True
    have "matches i v a"
    proof (rule ccontr)
      assume "\<not> matches i v a"
      with Cons.prems(2) obtain r where "r \<in> set rs" and "matches i v r" by auto
      then have "row_id a \<in> row_id ` set rs"
        by (metis True image_eqI matches_def)
      with Cons.prems(1) show False by simp
    qed
    with True show ?thesis by simp
  next
    case False
    then have "\<not> matches i v a" by (simp add: matches_def)
    with Cons.prems have "distinct (map row_id rs)" and "\<exists>r \<in> set rs. matches i v r"
      by auto
    from Cons.IH [OF this] False \<open>\<not> matches i v a\<close> show ?thesis by auto
  qed
qed

lemma find_appended:
  assumes "\<forall>x \<in> set rs. \<not> P x" and "P y"
  shows "find P (rs @ [y]) = Some y"
  using assms by (induction rs) auto

lemma stored_after_save:
  assumes ok: "fst (PrismaSeatRepository_save d s) = Inr saved"
    and pk: "distinct (map row_id (seats d))"
  shows "\<exists>x. fst (PrismaSeatRepository_findById (snd (PrismaSeatRepository_save d s)) (seat_id s))
               = Some x \<and>
             seat_id x = seat_id s \<and> seat_status x = seat_status s \<and>
             seat_userId x = seat_userId s \<and> seat_version x = seat_version s"
proof (cases "seat_version s = 1")
  case True
  from ok have ins: "insertable d s"
    unfolding save_create_branch [OF True] by (simp split: if_splits)
  then have "find (\<lambda>r. row_id r = seat_id s) (seats d @ [create_data (toJSON s)]) =
               Some (create_data (toJSON s))"
    by (intro find_appended) (auto simp: insertable_def toJSON_def seat_id_def)
  with ins show ?thesis
    unfolding save_create_branch [OF True]
    by (simp add: PrismaSeatRepository_findById_def seat_findUnique_def)
next
  case False
  from ok have hit: "\<exists>r \<in> set (seats d). matches (seat_id s) (seat_version s - 1) r"
    unfolding save_update_branch [OF False] by (simp split: if_splits)
  from find_after_update [OF pk hit] obtain r0 where
    "find (\<lambda>r. row_id r = seat_id s)
       (map (\<lambda>r. if matches (seat_id s) (seat_version s - 1) r
                 then r\<lparr>row_status := mapDomainStatusToPrisma (seat_status s),
                        row_userId := seat_userId s, row_version := seat_version s\<rparr>
                 else r) (seats d)) =
     Some (r0\<lparr>row_status := mapDomainStatusToPrisma (seat_status s),
              row_userId := seat_userId s, row_version := seat_version s\<rparr>)"
    and "row_id r0 = seat_id s"
    by blast
  then show ?thesis
    using hit unfolding save_update_branch [OF False]
    by (simp add: PrismaSeatRepository_findById_def seat_findUnique_def mapToDomain_def
        fromPersistence_def seat_id_def seat_status_def seat_userId_def seat_version_def)
qed

text \<open>
  What the invalidation achieves when it goes through. After a successful save(seat)
  through the cached repository in which the delete of the per-seat key does not fail,
  that key is absent from the cache, so a subsequent findById for the same id, whatever
  the cache commands do by then, asks the store and returns what the store holds, which
  carries the status, holder and version just written. The store is written first: a
  save that fails on the store leaves the cache as it was.
\<close>

lemma save_invalidates_cache:
  assumes saved: "CachedSeatRepository_save r seat = (Inr saved, r1)"
    and first: "take 1 (faults (cache r)) \<noteq> [True]"
  shows
    "entries (cache r1) (CACHE_KEYS_seat (seat_id seat)) = None \<and>
     fst (CachedSeatRepository_findById (r1\<lparr>cache := (cache r1)\<lparr>faults := fs\<rparr>\<rparr>) (seat_id seat)) =
       fst (PrismaSeatRepository_findById (db r1) (seat_id seat)) \<and>
     (distinct (map row_id (seats (db r))) \<longrightarrow>
        (\<exists>x. fst (CachedSeatRepository_findById (r1\<lparr>cache := (cache r1)\<lparr>faults := fs\<rparr>\<rparr>)
                    (seat_id seat)) = Some x \<and>
             seat_id x = seat_id seat \<and> seat_status x = seat_status seat \<and>
             seat_userId x = seat_userId seat \<and> seat_version x = seat_version seat))"
proof -
  let ?k1 = "CACHE_KEYS_seat (seat_id seat)"
  let ?k2 = "CACHE_KEYS_eventSeats (seat_eventId seat)"
  let ?c1 = "RedisService_delete (cache r) ?k1"
  from saved have ok: "fst (CachedSeatRepository_save r seat) = Inr saved"
    and r1: "r1 = snd (CachedSeatRepository_save r seat)"
    by simp_all
  have "\<not> fst (command (cache r))"
    using first by (cases "faults (cache r)") (auto simp: command_fails)
  then have "entries ?c1 ?k1 = None"
    by (simp add: RedisService_delete_entries)
  moreover have "cache r1 = RedisService_delete ?c1 ?k2"
    unfolding r1 using ok by (rule cached_save_cache)
  ultimately have gone: "entries (cache r1) ?k1 = None"
    by (simp add: RedisService_delete_entries)
  let ?later = "r1\<lparr>cache := (cache r1)\<lparr>faults := fs\<rparr>\<rparr>"
  have "fst (RedisService_get (cache ?later) ?k1) = None"
    using gone by (intro RedisService_get_miss) simp
  then have read: "fst (CachedSeatRepository_findById ?later (seat_id seat)) =
      fst (PrismaSeatRepository_findById (db r1) (seat_id seat))"
    using cached_findById_miss(1) [of ?later "seat_id seat"] by simp
  have "\<exists>x. fst (CachedSeatRepository_findById ?later (seat_id seat)) = Some x \<and>
             seat_id x = seat_id seat \<and> seat_status x = seat_status seat \<and>
             seat_userId x = seat_userId seat \<and> seat_version x = seat_version seat"
    if pk: "distinct (map row_id (seats (db r)))"
  proof -
    from ok have "fst (PrismaSeatRepository_save (db r) seat) = Inr saved"
      by (simp add: cached_save_fst)
    from stored_after_save [OF this pk] show ?thesis
      unfolding read by (simp add: r1 cached_save_db)
  qed
  with gone read show ?thesis by blast
qed

lemma failed_save_keeps_cache:
  assumes "fst (CachedSeatRepository_save r seat) = Inl e"
  shows "cache (snd (CachedSeatRepository_save r seat)) = cache r"
  using assms
  by (auto simp: CachedSeatRepository_save_def Let_def split: prod.splits sum.splits)

text \<open>
  C6. The claim: after any successful save(seat) through the cached repository, which
  writes to the store first and then deletes the per-seat and the per-event cache key,
  a subsequent findById for the same id never returns the pre-write cached value. The
  code departs from it where the cache service swallows a failed delete: with the
  available seat \<^verbatim>\<open>s1\<close> cached and the two delete commands of the save failing, the
  save of the locked seat succeeds, and the next findById, the cache answering again,
  returns the available seat cached before the write, while the store holds the locked
  one.
\<close>

theorem stale_read_after_swallowed_delete:
  "fst (CachedSeatRepository_save (cached_repo [True, True]) s1_locked) = Inr s1_locked \<and>
   fst (CachedSeatRepository_findById
          (snd (CachedSeatRepository_save (cached_repo [True, True]) s1_locked)) ''s1'') =
     Some s1_available \<and>
   fst (PrismaSeatRepository_findById
          (db (snd (CachedSeatRepository_save (cached_repo [True, True]) s1_locked))) ''s1'') =
     Some s1_locked"
  by (simp add: CachedSeatRepository_save_def CachedSeatRepository_findById_def
      PrismaSeatRepository_save_def PrismaSeatRepository_findById_def RedisService_delete_def
      RedisService_get_def command_def seat_updateMany_def seat_findUnique_def toJSON_def Let_def
      matches_def mapToDomain_def fromPersistence_def cached_repo_def s1_entries_def s1_db_def
      s1_row_def s1_locked_def s1_available_def create_def CACHE_KEYS_seat_def
      CACHE_KEYS_eventSeats_def seat_id_def seat_eventId_def sent_def)

subsection \<open>The booking service\<close>

lemma findById_keeps_rows:
  assumes "CachedSeatRepository_findById r i = (found, r1)"
  shows "seats (db r1) = seats (db r)"
  using cached_findById_seats [of r i] assms by simp

lemma cached_save_failure_rows:
  assumes "CachedSeatRepository_save r s = (Inl e, r2)"
  shows "seats (db r2) = seats (db r)"
  using cached_save_failure [of r s e] assms by simp

lemma lockSeat_failure:
  assumes "fst (lockSeat env w i u) = Inl e"
  shows "seats (db (seatRepository (snd (lockSeat env w i u)))) = seats (db (seatRepository w))"
proof -
  obtain found r1 where read: "CachedSeatRepository_findById (seatRepository w) i = (found, r1)"
    by (cases "CachedSeatRepository_findById (seatRepository w) i")
  then have "seats (db r1) = seats (db (seatRepository w))"
    by (rule findById_keeps_rows)
  with assms read show ?thesis
    by (auto simp: lockSeat_def split: prod.splits option.splits sum.splits if_splits
        dest: cached_save_failure_rows)
qed

lemma releaseSeat_failure:
  assumes "fst (releaseSeat w i u) = Inl e"
  shows "seats (db (seatRepository (snd (releaseSeat w i u)))) = seats (db (seatRepository w))"
proof -
  obtain found r1 where read: "CachedSeatRepository_findById (seatRepository w) i = (found, r1)"
    by (cases "CachedSeatRepository_findById (seatRepository w) i")
  then have "seats (db r1) = seats (db (seatRepository w))"
    by (rule findById_keeps_rows)
  with assms read show ?thesis
    by (auto simp: releaseSeat_def split: prod.splits option.splits sum.splits if_splits
        dest: cached_save_failure_rows)
qed

lemma confirmSale_failure:
  assumes "fst (confirmSale env w i u) = Inl e"
  shows "seats (db (seatRepository (snd (confirmSale env w i u)))) = seats (db (seatRepository w))"
proof -
  obtain found r1 where read: "CachedSeatRepository_findById (seatRepository w) i = (found, r1)"
    by (cases "CachedSeatRepository_findById (seatRepository w) i")
  then have "seats (db r1) = seats (db (seatRepository w))"
    by (rule findById_keeps_rows)
  with assms read show ?thesis
    by (auto simp: confirmSale_def split: prod.splits option.splits sum.splits if_splits
        dest: cached_save_failure_rows)
qed

lemma lockSeat_success:
  assumes "fst (lockSeat env w i u) = Inr s'"
  shows "\<exists>seat. fst (CachedSeatRepository_findById (seatRepository w) i) = Some seat \<and>
                lock seat u = Inr s' \<and> seat_version s' = seat_version seat + 1"
  using assms
  by (auto simp: lockSeat_def lock_Inr seat_version_def
      split: prod.splits option.splits sum.splits if_splits)

lemma releaseSeat_success:
  assumes "fst (releaseSeat w i u) = Inr s'"
  shows "\<exists>seat. fst (CachedSeatRepository_findById (seatRepository w) i) = Some seat \<and>
                release seat = Inr s' \<and> seat_version s' = seat_version seat + 1"
  using assms
  by (auto simp: releaseSeat_def release_Inr seat_version_def
      split: prod.splits option.splits sum.splits if_splits)

lemma confirmSale_success:
  assumes "fst (confirmSale env w i u) = Inr s'"
  shows "\<exists>seat. fst (CachedSeatRepository_findById (seatRepository w) i) = Some seat \<and>
                sell seat = Inr s' \<and> seat_version s' = seat_version seat + 1"
  using assms
  by (auto simp: confirmSale_def sell_Inr seat_version_def
      split: prod.splits option.splits sum.splits if_splits)


lemma cached_save_step:
  assumes "fst (CachedSeatRepository_save r s) = Inr x"
  shows "persisted_step (seats (db r)) (seats (db (snd (CachedSeatRepository_save r s)))) s"
proof -
  from assms have ok: "fst (PrismaSeatRepository_save (db r) s) = Inr x"
    by (simp add: cached_save_fst)
  show ?thesis
  proof (cases "seat_version s = 1")
    case True
    with ok show ?thesis
      unfolding cached_save_db save_create_branch [OF True]
      by (simp add: persisted_step_def split: if_splits)
  next
    case False
    let ?hit = "matches (seat_id s) (seat_version s - 1)"
    from ok have hit: "\<exists>row \<in> set (seats (db r)). ?hit row"
      unfolding save_update_branch [OF False] by (simp split: if_splits)
    have "map (\<lambda>row. if ?hit row
                      then row\<lparr>row_status := mapDomainStatusToPrisma (seat_status s),
                             row_userId := seat_userId s, row_version := seat_version s\<rparr>
                      else row) (seats (db r)) =
          map (\<lambda>row. if ?hit row
                      then row\<lparr>row_status := mapDomainStatusToPrisma (seat_status s),
                             row_userId := seat_userId s, row_version := row_version row + 1\<rparr>
                      else row) (seats (db r))"
      by (rule map_cong) (auto simp: matches_def)
    with hit False show ?thesis
      unfolding cached_save_db save_update_branch [OF False]
      by (simp add: persisted_step_def)
  qed
qed

lemma lockSeat_persists:
  assumes "fst (lockSeat env w i u) = Inr s'"
  shows "persisted_step (seats (db (seatRepository w)))
           (seats (db (seatRepository (snd (lockSeat env w i u))))) s'"
proof -
  obtain found r1 where read: "CachedSeatRepository_findById (seatRepository w) i = (found, r1)"
    by (cases "CachedSeatRepository_findById (seatRepository w) i")
  then have rows: "seats (db r1) = seats (db (seatRepository w))"
    by (rule findById_keeps_rows)
  from assms read
  have "\<exists>x r2. CachedSeatRepository_save r1 s' = (Inr x, r2) \<and>
          seatRepository (snd (lockSeat env w i u)) = r2"
    by (auto simp: lockSeat_def split: prod.splits option.splits sum.splits if_splits)
  then obtain x r2 where saved: "CachedSeatRepository_save r1 s' = (Inr x, r2)"
    and after: "seatRepository (snd (lockSeat env w i u)) = r2"
    by blast
  from saved have "fst (CachedSeatRepository_save r1 s') = Inr x"
    and r2: "r2 = snd (CachedSeatRepository_save r1 s')"
    by simp_all
  then have "persisted_step (seats (db r1)) (seats (db r2)) s'"
    using cached_save_step [of r1 s' x] by simp
  with rows after show ?thesis by simp
qed

lemma releaseSeat_persists:
  assumes "fst (releaseSeat w i u) = Inr s'"
  shows "persisted_step (seats (db (seatRepository w)))
           (seats (db (seatRepository (snd (releaseSeat w i u))))) s'"
proof -
  obtain found r1 where read: "CachedSeatRepository_findById (seatRepository w) i = (found, r1)"
    by (cases "CachedSeatRepository_findById (seatRepository w) i")
  then have rows: "seats (db r1) = seats (db (seatRepository w))"
    by (rule findById_keeps_rows)
  from assms read
  have "\<exists>x r2. CachedSeatRepository_save r1 s' = (Inr x, r2) \<and>
          seatRepository (snd (releaseSeat w i u)) = r2"
    by (auto simp: releaseSeat_def split: prod.splits option.splits sum.splits if_splits)
  then obtain x r2 where saved: "CachedSeatRepository_save r1 s' = (Inr x, r2)"
    and after: "seatRepository (snd (releaseSeat w i u)) = r2"
    by blast
  from saved have "fst (CachedSeatRepository_save r1 s') = Inr x"
    and r2: "r2 = snd (CachedSeatRepository_save r1 s')"
    by simp_all
  then have "persisted_step (seats (db r1)) (seats (db r2)) s'"
    using cached_save_step [of r1 s' x] by simp
  with rows after show ?thesis by simp
qed

lemma confirmSale_persists:
  assumes "fst (confirmSale env w i u) = Inr s'"
  shows "persisted_step (seats (db (seatRepository w)))
           (seats (db (seatRepository (snd (confirmSale env w i u))))) s'"
proof -
  obtain found r1 where read: "CachedSeatRepository_findById (seatRepository w) i = (found, r1)"
    by (cases "CachedSeatRepository_findById (seatRepository w) i")
  then have rows: "seats (db r1) = seats (db (seatRepository w))"
    by (rule findById_keeps_rows)
  from assms read
  have "\<exists>x r2. CachedSeatRepository_save r1 s' = (Inr x, r2) \<and>
          seatRepository (snd (confirmSale env w i u)) = r2"
    by (auto simp: confirmSale_def split: prod.splits option.splits sum.splits if_splits)
  then obtain x r2 where saved: "CachedSeatRepository_save r1 s' = (Inr x, r2)"
    and after: "seatRepository (snd (confirmSale env w i u)) = r2"
    by blast
  from saved have "fst (CachedSeatRepository_save r1 s') = Inr x"
    and r2: "r2 = snd (CachedSeatRepository_save r1 s')"
    by simp_all
  then have "persisted_step (seats (db r1)) (seats (db r2)) s'"
    using cached_save_step [of r1 s' x] by simp
  with rows after show ?thesis by simp
qed

lemmas service_defs =
  lockSeat_def confirmSale_def releaseSeat_def schedule_def
  CachedSeatRepository_findById_def CachedSeatRepository_save_def
  PrismaSeatRepository_findById_def PrismaSeatRepository_save_def
  RedisService_get_def RedisService_set_def RedisService_delete_def command_def
  seat_findUnique_def seat_updateMany_def sent_def matches_def mapToDomain_def
  fromPersistence_def toJSON_def lock_def sell_def release_def isAvailable_def isLockedBy_def
  CACHE_KEYS_seat_def CACHE_KEYS_eventSeats_def seat_id_def seat_eventId_def seat_status_def
  seat_userId_def seat_version_def Let_def

lemmas scenario_defs =
  fresh_process_def s1_entries_def s1_db_def s1_row_def s1_available_def s1_locked_def
  s1_sold_def create_def

lemma fresh_lock:
  "fst (lockSeat s1_env fresh_process ''s1'' ''u1'') = Inr s1_locked"
  by (simp add: service_defs scenario_defs)

lemma fresh_lock_rows:
  "seats (db (seatRepository (snd (lockSeat s1_env fresh_process ''s1'' ''u1'')))) =
     [s1_row\<lparr>row_status := P_LOCKED, row_userId := Some ''u1'', row_version := 2\<rparr>]"
  by (simp add: service_defs scenario_defs)

lemma fresh_release:
  "fst (releaseSeat (snd (lockSeat s1_env fresh_process ''s1'' ''u1'')) ''s1'' ''u1'') =
     Inr s1_released"
  by (simp add: service_defs scenario_defs s1_released_def)

lemma fresh_sale:
  "fst (confirmSale s1_env (snd (lockSeat s1_env fresh_process ''s1'' ''u1'')) ''s1'' ''u1'') =
     Inr s1_sold"
  by (simp add: service_defs scenario_defs)

lemma fresh_save:
  "fst (CachedSeatRepository_save (seatRepository fresh_process) s1_locked) = Inr s1_locked"
  by (simp add: service_defs scenario_defs)

text \<open>
  C4. Each successful transition increases the version by exactly 1. The seat returned
  by lock, sell or release has the version of its receiver plus 1. When lockSeat,
  releaseSeat or confirmSale succeeds, the seat it returns has the version of the seat
  read plus 1, and the table has moved by exactly the save of that seat: the rows
  stored under its id at the version read, of which there is one at least, have their
  version raised by exactly 1, and no other row has changed. The same holds of a
  successful save, on the store or through the cache layer. A failed transition never
  changes the persisted records: when save fails, on the store or through the cache
  layer, and when lockSeat, releaseSeat or confirmSale fails, by validation or by a
  failed save, the table is as it was.
\<close>

theorem version_discipline:
  "(lock s u = Inr s' \<longrightarrow> seat_version s' = seat_version s + 1) \<and>
   (sell s = Inr s' \<longrightarrow> seat_version s' = seat_version s + 1) \<and>
   (release s = Inr s' \<longrightarrow> seat_version s' = seat_version s + 1) \<and>
   (fst (lockSeat env w i u) = Inr s' \<longrightarrow>
      (\<exists>seat. fst (CachedSeatRepository_findById (seatRepository w) i) = Some seat \<and>
              seat_version s' = seat_version seat + 1) \<and>
      persisted_step (seats (db (seatRepository w)))
        (seats (db (seatRepository (snd (lockSeat env w i u))))) s') \<and>
   (fst (releaseSeat w i u) = Inr s' \<longrightarrow>
      (\<exists>seat. fst (CachedSeatRepository_findById (seatRepository w) i) = Some seat \<and>
              seat_version s' = seat_version seat + 1) \<and>
      persisted_step (seats (db (seatRepository w)))
        (seats (db (seatRepository (snd (releaseSeat w i u))))) s') \<and>
   (fst (confirmSale env w i u) = Inr s' \<longrightarrow>
      (\<exists>seat. fst (CachedSeatRepository_findById (seatRepository w) i) = Some seat \<and>
              seat_version s' = seat_version seat + 1) \<and>
      persisted_step (seats (db (seatRepository w)))
        (seats (db (seatRepository (snd (confirmSale env w i u))))) s') \<and>
   (fst (CachedSeatRepository_save r s) = Inr s' \<longrightarrow>
      persisted_step (seats (db r)) (seats (db (snd (CachedSeatRepository_save r s)))) s) \<and>
   (fst (PrismaSeatRepository_save d s) = Inr s' \<and> seat_version s \<noteq> 1 \<longrightarrow>
      map row_version (seats (snd (PrismaSeatRepository_save d s))) =
        map (\<lambda>r. if matches (seat_id s) (seat_version s - 1) r
                 then row_version r + 1 else row_version r) (seats d)) \<and>
   (fst (PrismaSeatRepository_save d s) = Inl e \<longrightarrow>
      seats (snd (PrismaSeatRepository_save d s)) = seats d) \<and>
   (fst (CachedSeatRepository_save r s) = Inl e \<longrightarrow>
      seats (db (snd (CachedSeatRepository_save r s))) = seats (db r)) \<and>
   (fst (lockSeat env w i u) = Inl e \<longrightarrow>
      seats (db (seatRepository (snd (lockSeat env w i u)))) = seats (db (seatRepository w))) \<and>
   (fst (releaseSeat w i u) = Inl e \<longrightarrow>
      seats (db (seatRepository (snd (releaseSeat w i u)))) = seats (db (seatRepository w))) \<and>
   (fst (confirmSale env w i u) = Inl e \<longrightarrow>
      seats (db (seatRepository (snd (confirmSale env w i u)))) = seats (db (seatRepository w)))"
proof (intro conjI impI)
  show "seat_version s' = seat_version s + 1" if "lock s u = Inr s'"
    using that by (simp add: lock_Inr seat_version_def)
  show "seat_version s' = seat_version s + 1" if "sell s = Inr s'"
    using that by (simp add: sell_Inr seat_version_def)
  show "seat_version s' = seat_version s + 1" if "release s = Inr s'"
    using that by (simp add: release_Inr seat_version_def)
  show "\<exists>seat. fst (CachedSeatRepository_findById (seatRepository w) i) = Some seat \<and>
          seat_version s' = seat_version seat + 1" if "fst (lockSeat env w i u) = Inr s'"
    using lockSeat_success [OF that] by blast
  show "persisted_step (seats (db (seatRepository w)))
          (seats (db (seatRepository (snd (lockSeat env w i u))))) s'"
    if "fst (lockSeat env w i u) = Inr s'"
    using that by (rule lockSeat_persists)
  show "\<exists>seat. fst (CachedSeatRepository_findById (seatRepository w) i) = Some seat \<and>
          seat_version s' = seat_version seat + 1" if "fst (releaseSeat w i u) = Inr s'"
    using releaseSeat_success [OF that] by blast
  show "persisted_step (seats (db (seatRepository w)))
          (seats (db (seatRepository (snd (releaseSeat w i u))))) s'"
    if "fst (releaseSeat w i u) = Inr s'"
    using that by (rule releaseSeat_persists)
  show "\<exists>seat. fst (CachedSeatRepository_findById (seatRepository w) i) = Some seat \<and>
          seat_version s' = seat_version seat + 1" if "fst (confirmSale env w i u) = Inr s'"
    using confirmSale_success [OF that] by blast
  show "persisted_step (seats (db (seatRepository w)))
          (seats (db (seatRepository (snd (confirmSale env w i u))))) s'"
    if "fst (confirmSale env w i u) = Inr s'"
    using that by (rule confirmSale_persists)
  show "persisted_step (seats (db r)) (seats (db (snd (CachedSeatRepository_save r s)))) s"
    if "fst (CachedSeatRepository_save r s) = Inr s'"
    using that by (rule cached_save_step)
  show "map row_version (seats (snd (PrismaSeatRepository_save d s))) =
          map (\<lambda>r. if matches (seat_id s) (seat_version s - 1) r
                   then row_version r + 1 else row_version r) (seats d)"
    if "fst (PrismaSeatRepository_save d s) = Inr s' \<and> seat_version s \<noteq> 1"
    using that prisma_save_success_versions(1) [of d s s'] by blast
  show "seats (snd (PrismaSeatRepository_save d s)) = seats d"
    if "fst (PrismaSeatRepository_save d s) = Inl e"
    using that by (rule prisma_save_failure)
  show "seats (db (snd (CachedSeatRepository_save r s))) = seats (db r)"
    if "fst (CachedSeatRepository_save r s) = Inl e"
    using that by (rule cached_save_failure)
  show "seats (db (seatRepository (snd (lockSeat env w i u)))) = seats (db (seatRepository w))"
    if "fst (lockSeat env w i u) = Inl e"
    using that by (rule lockSeat_failure)
  show "seats (db (seatRepository (snd (releaseSeat w i u)))) = seats (db (seatRepository w))"
    if "fst (releaseSeat w i u) = Inl e"
    using that by (rule releaseSeat_failure)
  show "seats (db (seatRepository (snd (confirmSale env w i u)))) = seats (db (seatRepository w))"
    if "fst (confirmSale env w i u) = Inl e"
    using that by (rule confirmSale_failure)
qed

lemma lock_s1: "lock s1_available ''u1'' = Inr s1_locked"
  by (simp add: lock_def s1_available_def create_def s1_locked_def)

lemma sell_s1: "sell s1_locked = Inr s1_sold"
  by (simp add: sell_def s1_locked_def s1_sold_def)

lemma stale_save_s1:
  "fst (PrismaSeatRepository_save s1_db s1_sold) = Inl (ConcurrencyError ''Seat'' ''s1'' 2)"
  by (simp add: PrismaSeatRepository_save_def seat_updateMany_def toJSON_def Let_def
      matches_def s1_sold_def s1_db_def s1_row_def)

theorem version_discipline_witness:
  "lock s1_available ''u1'' = Inr s1_locked \<and>
   seat_version s1_locked = seat_version s1_available + 1 \<and>
   sell s1_locked = Inr s1_sold \<and>
   seat_version s1_sold = seat_version s1_locked + 1 \<and>
   map row_version (seats (db (seatRepository fresh_process))) = [1] \<and>
   fst (lockSeat s1_env fresh_process ''s1'' ''u1'') = Inr s1_locked \<and>
   map row_version (seats (db (seatRepository (snd (lockSeat s1_env fresh_process ''s1'' ''u1''))))) =
     [2] \<and>
   fst (releaseSeat (snd (lockSeat s1_env fresh_process ''s1'' ''u1'')) ''s1'' ''u1'') =
     Inr s1_released \<and>
   map row_version
     (seats (db (seatRepository
        (snd (releaseSeat (snd (lockSeat s1_env fresh_process ''s1'' ''u1'')) ''s1'' ''u1''))))) =
     [3] \<and>
   fst (confirmSale s1_env (snd (lockSeat s1_env fresh_process ''s1'' ''u1'')) ''s1'' ''u1'') =
     Inr s1_sold \<and>
   map row_version
     (seats (db (seatRepository
        (snd (confirmSale s1_env (snd (lockSeat s1_env fresh_process ''s1'' ''u1''))
                ''s1'' ''u1''))))) =
     [3] \<and>
   fst (CachedSeatRepository_save (seatRepository fresh_process) s1_locked) = Inr s1_locked \<and>
   map row_version
     (seats (db (snd (CachedSeatRepository_save (seatRepository fresh_process) s1_locked)))) =
     [2] \<and>
   fst (PrismaSeatRepository_save s1_db s1_sold) = Inl (ConcurrencyError ''Seat'' ''s1'' 2) \<and>
   seats (snd (PrismaSeatRepository_save s1_db s1_sold)) = seats s1_db"
proof -
  let ?w1 = "snd (lockSeat s1_env fresh_process ''s1'' ''u1'')"
  have rows0: "seats (db (seatRepository fresh_process)) = [s1_row]"
    by (simp add: fresh_process_def s1_db_def)
  have entity:
    "lock s1_available ''u1'' = Inr s1_locked \<and>
     seat_version s1_locked = seat_version s1_available + 1 \<and>
     sell s1_locked = Inr s1_sold \<and>
     seat_version s1_sold = seat_version s1_locked + 1 \<and>
     fst (PrismaSeatRepository_save s1_db s1_sold) = Inl (ConcurrencyError ''Seat'' ''s1'' 2) \<and>
     seats (snd (PrismaSeatRepository_save s1_db s1_sold)) = seats s1_db"
    using
      version_discipline [where s = s1_available and u = "''u1''" and s' = s1_locked]
      version_discipline [where s = s1_locked and s' = s1_sold]
      version_discipline [where d = s1_db and s = s1_sold
        and e = "ConcurrencyError ''Seat'' ''s1'' 2"]
      lock_s1 sell_s1 stale_save_s1
    by simp
  have "persisted_step (seats (db (seatRepository fresh_process)))
          (seats (db (seatRepository ?w1))) s1_locked"
    using version_discipline [where env = s1_env and w = fresh_process and i = "''s1''"
        and u = "''u1''" and s' = s1_locked] fresh_lock
    by simp
  then have locked: "map row_version (seats (db (seatRepository ?w1))) = [2]"
    by (simp add: rows0 persisted_step_def matches_def s1_locked_def s1_row_def
        seat_version_def seat_id_def)
  have "persisted_step (seats (db (seatRepository ?w1)))
          (seats (db (seatRepository (snd (releaseSeat ?w1 ''s1'' ''u1''))))) s1_released"
    using version_discipline [where w = ?w1 and i = "''s1''" and u = "''u1''"
        and s' = s1_released] fresh_release
    by simp
  then have released:
    "map row_version (seats (db (seatRepository (snd (releaseSeat ?w1 ''s1'' ''u1''))))) = [3]"
    by (simp add: fresh_lock_rows persisted_step_def matches_def s1_released_def s1_row_def
        seat_version_def seat_id_def)
  have "persisted_step (seats (db (seatRepository ?w1)))
          (seats (db (seatRepository (snd (confirmSale s1_env ?w1 ''s1'' ''u1''))))) s1_sold"
    using version_discipline [where env = s1_env and w = ?w1 and i = "''s1''" and u = "''u1''"
        and s' = s1_sold] fresh_sale
    by simp
  then have sold:
    "map row_version (seats (db (seatRepository (snd (confirmSale s1_env ?w1 ''s1'' ''u1''))))) =
       [3]"
    by (simp add: fresh_lock_rows persisted_step_def matches_def s1_sold_def s1_row_def
        seat_version_def seat_id_def)
  have "persisted_step (seats (db (seatRepository fresh_process)))
          (seats (db (snd (CachedSeatRepository_save (seatRepository fresh_process) s1_locked))))
          s1_locked"
    using version_discipline [where r = "seatRepository fresh_process" and s = s1_locked
        and s' = s1_locked] fresh_save
    by simp
  then have saved:
    "map row_version
       (seats (db (snd (CachedSeatRepository_save (seatRepository fresh_process) s1_locked)))) =
     [2]"
    by (simp add: rows0 persisted_step_def matches_def s1_locked_def s1_row_def
        seat_version_def seat_id_def)
  from entity locked released sold saved fresh_lock fresh_release fresh_sale fresh_save
  show ?thesis
    by (simp add: rows0 s1_row_def)
qed

lemma rejected_on_read:
  assumes "CachedSeatRepository_findById (seatRepository w) seatId = (Some seat, r1)"
  shows "seat_status seat \<noteq> AVAILABLE \<Longrightarrow>
           lockSeat env w seatId userId =
             (Inl (SeatNotAvailableError seatId (SeatStatus_value (seat_status seat))),
              w\<lparr>seatRepository := r1\<rparr>)"
    and "seat_status seat \<noteq> LOCKED \<or> seat_userId seat \<noteq> Some userId \<Longrightarrow>
           releaseSeat w seatId userId =
             (Inl (UnauthorizedLockError userId seatId), w\<lparr>seatRepository := r1\<rparr>)"
    and "seat_status seat \<noteq> LOCKED \<or> seat_userId seat \<noteq> Some userId \<Longrightarrow>
           confirmSale env w seatId userId =
             (Inl (UnauthorizedLockError userId seatId), w\<lparr>seatRepository := r1\<rparr>)"
proof -
  show "lockSeat env w seatId userId =
          (Inl (SeatNotAvailableError seatId (SeatStatus_value (seat_status seat))),
           w\<lparr>seatRepository := r1\<rparr>)"
    if "seat_status seat \<noteq> AVAILABLE"
    using that assms by (simp add: lockSeat_def isAvailable_def seat_status_def)
  have "\<not> isLockedBy seat userId"
    if "seat_status seat \<noteq> LOCKED \<or> seat_userId seat \<noteq> Some userId"
    using that by (auto simp: isLockedBy_def seat_status_def seat_userId_def)
  with assms
  show "seat_status seat \<noteq> LOCKED \<or> seat_userId seat \<noteq> Some userId \<Longrightarrow>
          releaseSeat w seatId userId =
            (Inl (UnauthorizedLockError userId seatId), w\<lparr>seatRepository := r1\<rparr>)"
    and "seat_status seat \<noteq> LOCKED \<or> seat_userId seat \<noteq> Some userId \<Longrightarrow>
          confirmSale env w seatId userId =
            (Inl (UnauthorizedLockError userId seatId), w\<lparr>seatRepository := r1\<rparr>)"
    by (simp_all add: releaseSeat_def confirmSale_def)
qed

lemma read_of_uncached:
  assumes "entries (cache (seatRepository w)) (CACHE_KEYS_seat seatId) = None"
    and "fst (PrismaSeatRepository_findById (db (seatRepository w)) seatId) = Some stored"
  shows "CachedSeatRepository_findById (seatRepository w) seatId =
           (Some stored, snd (CachedSeatRepository_findById (seatRepository w) seatId))"
proof -
  from assms(1) have "fst (RedisService_get (cache (seatRepository w)) (CACHE_KEYS_seat seatId)) =
      None"
    by (rule RedisService_get_miss)
  from cached_findById_miss(1) [OF this] assms(2)
  have "fst (CachedSeatRepository_findById (seatRepository w) seatId) = Some stored"
    by simp
  then show ?thesis
    by (simp add: prod_eq_iff)
qed

lemma confirmSale_saved:
  assumes "fst (confirmSale env w seatId userId) = Inr sold"
  shows "\<exists>r1 x. seats (db r1) = seats (db (seatRepository w)) \<and>
           fst (CachedSeatRepository_save r1 sold) = Inr x \<and>
           seatRepository (snd (confirmSale env w seatId userId)) =
             snd (CachedSeatRepository_save r1 sold)"
proof -
  obtain found r1 where read: "CachedSeatRepository_findById (seatRepository w) seatId = (found, r1)"
    by (cases "CachedSeatRepository_findById (seatRepository w) seatId")
  then have rows: "seats (db r1) = seats (db (seatRepository w))"
    by (rule findById_keeps_rows)
  from assms read
  have "\<exists>x r2. CachedSeatRepository_save r1 sold = (Inr x, r2) \<and>
          seatRepository (snd (confirmSale env w seatId userId)) = r2"
    by (auto simp: confirmSale_def split: prod.splits option.splits sum.splits if_splits)
  then obtain x r2 where "CachedSeatRepository_save r1 sold = (Inr x, r2)"
    and "seatRepository (snd (confirmSale env w seatId userId)) = r2"
    by blast
  then have "fst (CachedSeatRepository_save r1 sold) = Inr x"
    and "seatRepository (snd (confirmSale env w seatId userId)) =
           snd (CachedSeatRepository_save r1 sold)"
    by simp_all
  with rows show ?thesis by blast
qed

lemma second_confirmSale:
  assumes first: "fst (confirmSale env w seatId userId) = Inr sold"
    and same: "seat_id sold = seatId"
    and pk: "distinct (map row_id (seats (db (seatRepository w))))"
    and gone: "entries (cache (seatRepository (snd (confirmSale env w seatId userId))))
                 (CACHE_KEYS_seat seatId) = None"
  shows "fst (confirmSale env' (snd (confirmSale env w seatId userId)) seatId userId) =
           Inl (UnauthorizedLockError userId seatId)"
proof -
  let ?w1 = "snd (confirmSale env w seatId userId)"
  from confirmSale_success [OF first] have "seat_status sold = SOLD"
    by (auto simp: sell_Inr seat_status_def)
  moreover
  from confirmSale_saved [OF first] obtain r1 x
    where rows: "seats (db r1) = seats (db (seatRepository w))"
      and ok: "fst (CachedSeatRepository_save r1 sold) = Inr x"
      and after: "seatRepository ?w1 = snd (CachedSeatRepository_save r1 sold)"
    by blast
  from ok have "fst (PrismaSeatRepository_save (db r1) sold) = Inr x"
    by (simp add: cached_save_fst)
  moreover from pk rows have "distinct (map row_id (seats (db r1)))"
    by simp
  ultimately obtain stored
    where "fst (PrismaSeatRepository_findById (db (seatRepository ?w1)) seatId) = Some stored"
      and "seat_status stored = SOLD"
    using stored_after_save [of "db r1" sold x] same
    by (auto simp: after cached_save_db)
  with read_of_uncached [OF gone] rejected_on_read(3) [of ?w1 seatId stored _ userId env']
  show ?thesis
    by simp
qed

text \<open>
  C2, as the code has it. The status that decides is the one the service reads through
  the cached repository, which is the cached copy of the seat when there is one and
  the stored row otherwise. For every seat read and every requested transition that is
  invalid for the status read, the operation fails, and the read leaves the persisted
  rows unchanged: lockSeat on a seat that is not AVAILABLE fails with NotAvailable
  carrying that status, and releaseSeat and confirmSale on a seat that is not LOCKED
  (or not locked by the requester) fail with Unauthorized. When no copy of the seat is
  cached, the status read is that of the stored row. In particular, once confirmSale
  by u1 has sold a seat and the cache holds no copy of it afterwards (the delete of its
  key went through), a second confirmSale by u1 reads the stored SOLD row and fails
  with Unauthorized, and the rows stay as the first sale left them.
\<close>

theorem invalid_transition_rejected:
  "(CachedSeatRepository_findById (seatRepository w) seatId = (Some seat, r1) \<longrightarrow>
      (seat_status seat \<noteq> AVAILABLE \<longrightarrow>
         lockSeat env w seatId userId =
           (Inl (SeatNotAvailableError seatId (SeatStatus_value (seat_status seat))),
            w\<lparr>seatRepository := r1\<rparr>)) \<and>
      (seat_status seat \<noteq> LOCKED \<or> seat_userId seat \<noteq> Some userId \<longrightarrow>
         releaseSeat w seatId userId =
           (Inl (UnauthorizedLockError userId seatId), w\<lparr>seatRepository := r1\<rparr>) \<and>
         confirmSale env w seatId userId =
           (Inl (UnauthorizedLockError userId seatId), w\<lparr>seatRepository := r1\<rparr>)) \<and>
      seats (db r1) = seats (db (seatRepository w))) \<and>
   (entries (cache (seatRepository w)) (CACHE_KEYS_seat seatId) = None \<and>
    fst (PrismaSeatRepository_findById (db (seatRepository w)) seatId) = Some stored \<longrightarrow>
      (seat_status stored \<noteq> AVAILABLE \<longrightarrow>
         fst (lockSeat env w seatId userId) =
           Inl (SeatNotAvailableError seatId (SeatStatus_value (seat_status stored)))) \<and>
      (seat_status stored \<noteq> LOCKED \<or> seat_userId stored \<noteq> Some userId \<longrightarrow>
         fst (releaseSeat w seatId userId) = Inl (UnauthorizedLockError userId seatId) \<and>
         fst (confirmSale env w seatId userId) = Inl (UnauthorizedLockError userId seatId))) \<and>
   (fst (confirmSale env w seatId userId) = Inr sold \<and> seat_id sold = seatId \<and>
    distinct (map row_id (seats (db (seatRepository w)))) \<and>
    entries (cache (seatRepository (snd (confirmSale env w seatId userId))))
      (CACHE_KEYS_seat seatId) = None \<longrightarrow>
      fst (confirmSale env' (snd (confirmSale env w seatId userId)) seatId userId) =
        Inl (UnauthorizedLockError userId seatId) \<and>
      seats (db (seatRepository
        (snd (confirmSale env' (snd (confirmSale env w seatId userId)) seatId userId)))) =
        seats (db (seatRepository (snd (confirmSale env w seatId userId)))))"
proof (intro conjI impI)
  assume read: "CachedSeatRepository_findById (seatRepository w) seatId = (Some seat, r1)"
  show "lockSeat env w seatId userId =
          (Inl (SeatNotAvailableError seatId (SeatStatus_value (seat_status seat))),
           w\<lparr>seatRepository := r1\<rparr>)"
    if "seat_status seat \<noteq> AVAILABLE"
    using that by (rule rejected_on_read(1) [OF read])
  show "releaseSeat w seatId userId =
          (Inl (UnauthorizedLockError userId seatId), w\<lparr>seatRepository := r1\<rparr>)"
    if "seat_status seat \<noteq> LOCKED \<or> seat_userId seat \<noteq> Some userId"
    using that by (rule rejected_on_read(2) [OF read])
  show "confirmSale env w seatId userId =
          (Inl (UnauthorizedLockError userId seatId), w\<lparr>seatRepository := r1\<rparr>)"
    if "seat_status seat \<noteq> LOCKED \<or> seat_userId seat \<noteq> Some userId"
    using that by (rule rejected_on_read(3) [OF read])
  from read show "seats (db r1) = seats (db (seatRepository w))"
    by (rule findById_keeps_rows)
next
  assume "entries (cache (seatRepository w)) (CACHE_KEYS_seat seatId) = None \<and>
    fst (PrismaSeatRepository_findById (db (seatRepository w)) seatId) = Some stored"
  then have read: "CachedSeatRepository_findById (seatRepository w) seatId =
      (Some stored, snd (CachedSeatRepository_findById (seatRepository w) seatId))"
    using read_of_uncached by blast
  show "fst (lockSeat env w seatId userId) =
          Inl (SeatNotAvailableError seatId (SeatStatus_value (seat_status stored)))"
    if "seat_status stored \<noteq> AVAILABLE"
    using rejected_on_read(1) [OF read that, of env userId] by simp
  show "fst (releaseSeat w seatId userId) = Inl (UnauthorizedLockError userId seatId)"
    if "seat_status stored \<noteq> LOCKED \<or> seat_userId stored \<noteq> Some userId"
    using rejected_on_read(2) [OF read that] by simp
  show "fst (confirmSale env w seatId userId) = Inl (UnauthorizedLockError userId seatId)"
    if "seat_status stored \<noteq> LOCKED \<or> seat_userId stored \<noteq> Some userId"
    using rejected_on_read(3) [OF read that, of env] by simp
next
  assume sale: "fst (confirmSale env w seatId userId) = Inr sold \<and> seat_id sold = seatId \<and>
    distinct (map row_id (seats (db (seatRepository w)))) \<and>
    entries (cache (seatRepository (snd (confirmSale env w seatId userId))))
      (CACHE_KEYS_seat seatId) = None"
  then show second:
    "fst (confirmSale env' (snd (confirmSale env w seatId userId)) seatId userId) =
       Inl (UnauthorizedLockError userId seatId)"
    by (intro second_confirmSale [of env w seatId userId sold]) simp_all
  then show "seats (db (seatRepository
        (snd (confirmSale env' (snd (confirmSale env w seatId userId)) seatId userId)))) =
      seats (db (seatRepository (snd (confirmSale env w seatId userId))))"
    by (rule confirmSale_failure)
qed

text \<open>
  The claim C2 as it is worded fails on the code, at its own scenario: the seat is
  locked by \<^verbatim>\<open>u1\<close> and sold to \<^verbatim>\<open>u1\<close>; the second confirmSale by \<^verbatim>\<open>u1\<close> fails with
  the unauthorized-lock error and not with NotAvailable carrying \<^verbatim>\<open>SOLD\<close>.
\<close>

theorem second_sale_counterexample:
  "fst (lockSeat s1_env fresh_process ''s1'' ''u1'') = Inr s1_locked \<and>
   fst (confirmSale s1_env (snd (lockSeat s1_env fresh_process ''s1'' ''u1'')) ''s1'' ''u1'') =
     Inr s1_sold \<and>
   fst (confirmSale s1_env
          (snd (confirmSale s1_env (snd (lockSeat s1_env fresh_process ''s1'' ''u1''))
                  ''s1'' ''u1''))
          ''s1'' ''u1'') = Inl (UnauthorizedLockError ''u1'' ''s1'') \<and>
   UnauthorizedLockError ''u1'' ''s1'' \<noteq> SeatNotAvailableError ''s1'' ''SOLD''"
  by (simp add: service_defs scenario_defs)


lemma sold_read:
  "CachedSeatRepository_findById (seatRepository sold_process) ''s1'' =
     (Some s1_sold, snd (CachedSeatRepository_findById (seatRepository sold_process) ''s1''))"
  by (simp add: service_defs scenario_defs sold_process_def prod_eq_iff)

lemma sold_stored:
  "entries (cache (seatRepository sold_process)) (CACHE_KEYS_seat ''s1'') = None \<and>
   fst (PrismaSeatRepository_findById (db (seatRepository sold_process)) ''s1'') = Some s1_sold"
  by (simp add: service_defs scenario_defs sold_process_def)

lemma fresh_sale_invalidated:
  "distinct (map row_id (seats (db (seatRepository
      (snd (lockSeat s1_env fresh_process ''s1'' ''u1'')))))) \<and>
   entries (cache (seatRepository
      (snd (confirmSale s1_env (snd (lockSeat s1_env fresh_process ''s1'' ''u1''))
              ''s1'' ''u1''))))
     (CACHE_KEYS_seat ''s1'') = None"
  by (simp add: service_defs scenario_defs)

theorem invalid_transition_rejected_witness:
  "fst (CachedSeatRepository_findById (seatRepository sold_process) ''s1'') = Some s1_sold \<and>
   entries (cache (seatRepository sold_process)) (CACHE_KEYS_seat ''s1'') = None \<and>
   fst (PrismaSeatRepository_findById (db (seatRepository sold_process)) ''s1'') = Some s1_sold \<and>
   seat_status s1_sold = SOLD \<and>
   fst (lockSeat s1_env sold_process ''s1'' ''u2'') = Inl (SeatNotAvailableError ''s1'' ''SOLD'') \<and>
   fst (releaseSeat sold_process ''s1'' ''u1'') = Inl (UnauthorizedLockError ''u1'' ''s1'') \<and>
   fst (confirmSale s1_env sold_process ''s1'' ''u1'') = Inl (UnauthorizedLockError ''u1'' ''s1'') \<and>
   seats (db (seatRepository (snd (confirmSale s1_env sold_process ''s1'' ''u1'')))) =
     seats (db (seatRepository sold_process)) \<and>
   fst (confirmSale s1_env (snd (lockSeat s1_env fresh_process ''s1'' ''u1'')) ''s1'' ''u1'') =
     Inr s1_sold \<and>
   seat_id s1_sold = ''s1'' \<and>
   distinct (map row_id (seats (db (seatRepository
      (snd (lockSeat s1_env fresh_process ''s1'' ''u1'')))))) \<and>
   entries (cache (seatRepository
      (snd (confirmSale s1_env (snd (lockSeat s1_env fresh_process ''s1'' ''u1''))
              ''s1'' ''u1''))))
     (CACHE_KEYS_seat ''s1'') = None \<and>
   fst (confirmSale s1_env
          (snd (confirmSale s1_env (snd (lockSeat s1_env fresh_process ''s1'' ''u1''))
                  ''s1'' ''u1''))
          ''s1'' ''u1'') = Inl (UnauthorizedLockError ''u1'' ''s1'')"
proof -
  let ?w1 = "snd (lockSeat s1_env fresh_process ''s1'' ''u1'')"
  have sold: "seat_status s1_sold = SOLD" and same: "seat_id s1_sold = ''s1''"
    by (simp_all add: s1_sold_def seat_status_def seat_id_def)
  note on_read = invalid_transition_rejected [where w = sold_process and seatId = "''s1''"
      and seat = s1_sold and stored = s1_sold
      and ?r1.0 = "snd (CachedSeatRepository_findById (seatRepository sold_process) ''s1'')"
      and env = s1_env]
  from on_read [where userId = "''u2''"] sold_read sold
  have "fst (lockSeat s1_env sold_process ''s1'' ''u2'') =
          Inl (SeatNotAvailableError ''s1'' ''SOLD'')"
    by simp
  moreover from on_read [where userId = "''u1''"] sold_read sold
  have "fst (releaseSeat sold_process ''s1'' ''u1'') = Inl (UnauthorizedLockError ''u1'' ''s1'')"
    and "fst (confirmSale s1_env sold_process ''s1'' ''u1'') =
           Inl (UnauthorizedLockError ''u1'' ''s1'')"
    and "seats (db (seatRepository (snd (confirmSale s1_env sold_process ''s1'' ''u1'')))) =
           seats (db (seatRepository sold_process))"
    by simp_all
  moreover have "fst (CachedSeatRepository_findById (seatRepository sold_process) ''s1'') =
      Some s1_sold"
    using sold_read by (metis fst_conv)
  moreover
  from invalid_transition_rejected [where w = ?w1 and seatId = "''s1''" and userId = "''u1''"
      and env = s1_env and env' = s1_env and sold = s1_sold]
    fresh_sale fresh_sale_invalidated same
  have "fst (confirmSale s1_env (snd (confirmSale s1_env ?w1 ''s1'' ''u1'')) ''s1'' ''u1'') =
          Inl (UnauthorizedLockError ''u1'' ''s1'')"
    by simp
  ultimately show ?thesis
    using sold same sold_stored fresh_sale fresh_sale_invalidated by simp
qed

text \<open>
  Where the delete of the seat's key fails during the sale, the locked copy stays
  cached: the second confirmSale reads it, passes the guard, and fails at the save with
  the concurrency error on the version of the copy, the stored row being sold already.
\<close>

lemma second_sale_on_stale_copy:
  "fst (confirmSale s1_env (snd (lockSeat s1_env flaky_process ''s1'' ''u1'')) ''s1'' ''u1'') =
     Inr s1_sold \<and>
   fst (confirmSale s1_env
          (snd (confirmSale s1_env (snd (lockSeat s1_env flaky_process ''s1'' ''u1''))
                  ''s1'' ''u1''))
          ''s1'' ''u1'') = Inl (ConcurrencyError ''Seat'' ''s1'' 2) \<and>
   seats (db (seatRepository
      (snd (confirmSale s1_env
              (snd (confirmSale s1_env (snd (lockSeat s1_env flaky_process ''s1'' ''u1''))
                      ''s1'' ''u1''))
              ''s1'' ''u1'')))) =
     [s1_row\<lparr>row_status := P_SOLD, row_userId := Some ''u1'', row_version := 3\<rparr>]"
  by (simp add: service_defs scenario_defs flaky_process_def)

text \<open>
  C3, as the code has it. lockSeat(seatId, holderId): when the read of the seat finds
  nothing it fails with NotFound; when it finds a seat whose status is not AVAILABLE it
  fails with NotAvailable carrying the current status; otherwise it builds a new record
  with status LOCKED, holderId set to the requester and version incremented by 1, and
  hands exactly that record to the save of the cached repository. If that save fails
  (a concurrency conflict), the failure is the outcome of lockSeat. If it succeeds,
  lockSeat returns the new record; the store has then run one conditional update that
  gave the row stored at the version read the status LOCKED, the holder and the new
  version, and a delete has been issued for the per-seat and the per-event cache key.
\<close>

theorem lockSeat_outcomes:
  assumes "CachedSeatRepository_findById (seatRepository w) seatId = (found, r1)"
  shows
    "(case found of
        None \<Rightarrow> fst (lockSeat env w seatId userId) = Inl (SeatNotFoundError seatId)
      | Some seat \<Rightarrow>
          if seat_status seat \<noteq> AVAILABLE
          then fst (lockSeat env w seatId userId) =
                 Inl (SeatNotAvailableError seatId (SeatStatus_value (seat_status seat)))
          else (let lockedSeat = Seat ((props seat)\<lparr>p_status := LOCKED, p_userId := Some userId,
                                                  p_version := seat_version seat + 1\<rparr>)
                in seatRepository (snd (lockSeat env w seatId userId)) =
                     snd (CachedSeatRepository_save r1 lockedSeat) \<and>
                   (case fst (CachedSeatRepository_save r1 lockedSeat) of
                      Inl e \<Rightarrow> fst (lockSeat env w seatId userId) = Inl e
                    | Inr saved \<Rightarrow>
                        fst (lockSeat env w seatId userId) = Inr lockedSeat \<and>
                        cache (seatRepository (snd (lockSeat env w seatId userId))) =
                          RedisService_delete
                            (RedisService_delete (cache r1) (CACHE_KEYS_seat (seat_id seat)))
                            (CACHE_KEYS_eventSeats (seat_eventId seat)) \<and>
                        (seat_version seat \<noteq> 0 \<longrightarrow>
                              statements (db (seatRepository (snd (lockSeat env w seatId userId)))) =
                                statements (db r1) @
                                  [UpdateMany (seat_id seat) (seat_version seat) P_LOCKED
                                     (Some userId) (seat_version seat + 1)] \<and>
                              seats (db (seatRepository (snd (lockSeat env w seatId userId)))) =
                                map (\<lambda>r. if matches (seat_id seat) (seat_version seat) r
                                         then r\<lparr>row_status := P_LOCKED,
                                                row_userId := Some userId,
                                                row_version := seat_version seat + 1\<rparr>
                                         else r) (seats (db (seatRepository w)))))))"
proof (cases found)
  case None
  with assms show ?thesis by (simp add: lockSeat_def)
next
  case (Some seat)
  show ?thesis
  proof (cases "seat_status seat = AVAILABLE")
    case False
    with Some assms show ?thesis
      by (simp add: lockSeat_def isAvailable_def seat_status_def)
  next
    case True
    let ?locked = "Seat ((props seat)\<lparr>p_status := LOCKED, p_userId := Some userId,
                                     p_version := seat_version seat + 1\<rparr>)"
    have locked: "lock seat userId = Inr ?locked"
      using True by (simp add: lock_def seat_status_def seat_version_def)
    have getters: "seat_id ?locked = seat_id seat" "seat_eventId ?locked = seat_eventId seat"
      "seat_version ?locked = seat_version seat + 1" "seat_status ?locked = LOCKED"
      "seat_userId ?locked = Some userId"
      by (simp_all add: seat_id_def seat_eventId_def seat_version_def seat_status_def
          seat_userId_def)
    have rows: "seats (db r1) = seats (db (seatRepository w))"
      using assms by (rule findById_keeps_rows)
    obtain res r2 where save: "CachedSeatRepository_save r1 ?locked = (res, r2)"
      by (cases "CachedSeatRepository_save r1 ?locked")
    have run: "lockSeat env w seatId userId =
        (case res of
           Inl e \<Rightarrow> (Inl e, w\<lparr>seatRepository := r2\<rparr>)
         | Inr saved \<Rightarrow>
             (Inr ?locked,
              w\<lparr>seatRepository := r2,
                eventPublisher :=
                  schedule env EVENT_QUEUES_NOTIFICATION
                    (createSeatLockedEvent env (seat_id ?locked) (seat_eventId ?locked) userId
                       (seat_seatNumber ?locked) (seat_price ?locked) None None)
                    (eventPublisher w)\<rparr>))"
      using assms Some True locked save
      by (simp add: lockSeat_def isAvailable_def seat_status_def split: sum.splits)
    show ?thesis
    proof (cases res)
      case (Inl e)
      with Some True save run show ?thesis by simp
    next
      case (Inr saved)
      with save have ok: "fst (CachedSeatRepository_save r1 ?locked) = Inr saved"
        and r2: "r2 = snd (CachedSeatRepository_save r1 ?locked)"
        by simp_all
      have cache: "cache r2 =
          RedisService_delete (RedisService_delete (cache r1) (CACHE_KEYS_seat (seat_id seat)))
            (CACHE_KEYS_eventSeats (seat_eventId seat))"
        using cached_save_cache [OF ok] by (simp add: r2 getters)
      have store: "statements (db r2) =
            statements (db r1) @
              [UpdateMany (seat_id seat) (seat_version seat) P_LOCKED (Some userId)
                 (seat_version seat + 1)] \<and>
          seats (db r2) =
            map (\<lambda>r. if matches (seat_id seat) (seat_version seat) r
                     then r\<lparr>row_status := P_LOCKED, row_userId := Some userId,
                            row_version := seat_version seat + 1\<rparr>
                     else r) (seats (db (seatRepository w)))"
        if "seat_version seat \<noteq> 0"
      proof -
        from that have v: "seat_version ?locked \<noteq> 1" by (simp add: getters)
        note branch = save_update_branch [OF v, of "db r1"]
        from ok have "fst (PrismaSeatRepository_save (db r1) ?locked) = Inr saved"
          by (simp add: cached_save_fst)
        with branch
        have hit: "\<exists>r \<in> set (seats (db r1)).
                     matches (seat_id ?locked) (seat_version ?locked - 1) r"
          by (auto split: if_splits)
        have "db r2 = snd (PrismaSeatRepository_save (db r1) ?locked)"
          by (simp add: r2 cached_save_db)
        with branch hit show ?thesis
          by (simp add: getters rows)
      qed
      from Some True save run Inr cache store show ?thesis
        by simp
    qed
  qed
qed


lemma fresh_read:
  "CachedSeatRepository_findById (seatRepository fresh_process) ''s1'' =
     (Some s1_available,
      snd (CachedSeatRepository_findById (seatRepository fresh_process) ''s1''))"
  by (simp add: service_defs scenario_defs prod_eq_iff)

theorem lockSeat_outcomes_witness:
  "fst (CachedSeatRepository_findById (seatRepository fresh_process) ''s1'') = Some s1_available \<and>
   fst (lockSeat s1_env fresh_process ''s1'' ''u1'') = Inr s1_locked \<and>
   statements (db (seatRepository (snd (lockSeat s1_env fresh_process ''s1'' ''u1'')))) =
     [FindUnique ''s1'', UpdateMany ''s1'' 1 P_LOCKED (Some ''u1'') 2] \<and>
   seats (db (seatRepository (snd (lockSeat s1_env fresh_process ''s1'' ''u1'')))) =
     [s1_row\<lparr>row_status := P_LOCKED, row_userId := Some ''u1'', row_version := 2\<rparr>]"
proof -
  have read: "fst (CachedSeatRepository_findById (seatRepository fresh_process) ''s1'') =
      Some s1_available"
    using fresh_read by (metis fst_conv)
  from lockSeat_outcomes [OF fresh_read, where env = s1_env and userId = "''u1''"] read
  show ?thesis
    by (simp add: service_defs scenario_defs)
qed

text \<open>
  The claim C3 as it is worded fails on the code: a seat that is read as present and
  AVAILABLE need not be returned locked. In the process where another request has
  locked \<^verbatim>\<open>s1\<close> since it was cached, lockSeat reads the available seat and then fails
  with the concurrency error of the save; nothing is returned and nothing persisted.
\<close>

theorem lockSeat_conflict_counterexample:
  "fst (CachedSeatRepository_findById (seatRepository raced_process) ''s1'') = Some s1_available \<and>
   seat_status s1_available = AVAILABLE \<and>
   fst (lockSeat s1_env raced_process ''s1'' ''u1'') = Inl (ConcurrencyError ''Seat'' ''s1'' 1) \<and>
   seats (db (seatRepository (snd (lockSeat s1_env raced_process ''s1'' ''u1'')))) =
     seats (db (seatRepository raced_process))"
  by (simp add: service_defs scenario_defs raced_process_def)

subsection \<open>The event publisher\<close>

lemma lockSeat_ignores_publisher:
  "fst (lockSeat env (w\<lparr>eventPublisher := p\<rparr>) i u) = fst (lockSeat env w i u)"
  "seatRepository (snd (lockSeat env (w\<lparr>eventPublisher := p\<rparr>) i u)) =
     seatRepository (snd (lockSeat env w i u))"
  by (auto simp: lockSeat_def split: prod.splits option.splits sum.splits)

lemma confirmSale_ignores_publisher:
  "fst (confirmSale env (w\<lparr>eventPublisher := p\<rparr>) i u) = fst (confirmSale env w i u)"
  "seatRepository (snd (confirmSale env (w\<lparr>eventPublisher := p\<rparr>) i u)) =
     seatRepository (snd (confirmSale env w i u))"
  by (auto simp: confirmSale_def split: prod.splits option.splits sum.splits)

text \<open>
  C8. For every queue and event, publish never raises to its caller, whatever the
  transport does. When the client's publish fails, during connection or delivery, the
  RabbitMQ publisher logs one error line and nothing else changes for the caller; when
  it succeeds, it logs one info line. The result of lockSeat and of confirmSale, and
  the repository they leave behind, do not depend on the publisher they were given.
\<close>

theorem publish_never_raises:
  "fst (publish env p queue event) = Inr () \<and>
   (case RabbitMQClient_publish c queue event
           (case correlationId event of Some x \<Rightarrow> x | None \<Rightarrow> getCorrelationId env) of
      (Inl e, c1) \<Rightarrow>
        publish env (RabbitMQEventPublisher c logged) queue event =
          (Inr (), RabbitMQEventPublisher c1 (logged @ [(''error'', ''Failed to publish event'')]))
    | (Inr delivered, c1) \<Rightarrow>
        publish env (RabbitMQEventPublisher c logged) queue event =
          (Inr (), RabbitMQEventPublisher c1 (logged @ [(''info'', ''Event published'')]))) \<and>
   fst (lockSeat env (w\<lparr>eventPublisher := Some p\<rparr>) i u) =
     fst (lockSeat env (w\<lparr>eventPublisher := None\<rparr>) i u) \<and>
   seatRepository (snd (lockSeat env (w\<lparr>eventPublisher := Some p\<rparr>) i u)) =
     seatRepository (snd (lockSeat env (w\<lparr>eventPublisher := None\<rparr>) i u)) \<and>
   fst (confirmSale env (w\<lparr>eventPublisher := Some p\<rparr>) i u) =
     fst (confirmSale env (w\<lparr>eventPublisher := None\<rparr>) i u) \<and>
   seatRepository (snd (confirmSale env (w\<lparr>eventPublisher := Some p\<rparr>) i u)) =
     seatRepository (snd (confirmSale env (w\<lparr>eventPublisher := None\<rparr>) i u))"
proof -
  have "fst (publish env p queue event) = Inr ()"
    by (cases p) (auto simp: Let_def split: prod.splits sum.splits)
  moreover have
    "case RabbitMQClient_publish c queue event
            (case correlationId event of Some x \<Rightarrow> x | None \<Rightarrow> getCorrelationId env) of
       (Inl e, c1) \<Rightarrow>
         publish env (RabbitMQEventPublisher c logged) queue event =
           (Inr (), RabbitMQEventPublisher c1 (logged @ [(''error'', ''Failed to publish event'')]))
     | (Inr delivered, c1) \<Rightarrow>
         publish env (RabbitMQEventPublisher c logged) queue event =
           (Inr (), RabbitMQEventPublisher c1 (logged @ [(''info'', ''Event published'')]))"
    by (auto simp: Let_def split: prod.splits sum.splits)
  ultimately show ?thesis
    by (simp add: lockSeat_ignores_publisher confirmSale_ignores_publisher)
qed


lemma attempts_numeral:
  "attempts (numeral k) delay c =
     (case amqp c of
        (Thrown, c1) \<Rightarrow>
          (case backoff (pred_numeral k) delay c1 of
             (delay', c2) \<Rightarrow> attempts (pred_numeral k) delay' c2)
      | (_, c1) \<Rightarrow>
          (case amqp (c1\<lparr>connection := True\<rparr>) of
             (Thrown, c2) \<Rightarrow>
               (case backoff (pred_numeral k) delay c2 of
                  (delay', c3) \<Rightarrow> attempts (pred_numeral k) delay' c3)
           | (_, c2) \<Rightarrow> (True, c2\<lparr>channel := True, isConnecting := False\<rparr>)))"
  by (simp add: numeral_eq_Suc)

lemma down_publish:
  "fst (RabbitMQClient_publish down_client EVENT_QUEUES_TICKET_GENERATION s1_sold_event ''req-1'') =
     Inl ConnectFailed"
  by (simp add: RabbitMQClient_publish_def ensureConnection_def isConnected_def connect_def
      attempts_numeral amqp_def backoff_def down_client_def)


lemma s1_sold_event_cid:
  "(case correlationId s1_sold_event of Some x \<Rightarrow> x | None \<Rightarrow> getCorrelationId s1_env) = ''req-1''"
  by (simp add: s1_sold_event_def createSeatSoldEvent_def getCorrelationId_def s1_env_def)

theorem publish_never_raises_witness:
  "fst (RabbitMQClient_publish down_client EVENT_QUEUES_TICKET_GENERATION s1_sold_event ''req-1'') =
     Inl ConnectFailed \<and>
   publish s1_env (RabbitMQEventPublisher down_client []) EVENT_QUEUES_TICKET_GENERATION
       s1_sold_event =
     (Inr (),
      RabbitMQEventPublisher
        (snd (RabbitMQClient_publish down_client EVENT_QUEUES_TICKET_GENERATION s1_sold_event
                ''req-1''))
        [(''error'', ''Failed to publish event'')]) \<and>
   fst (lockSeat s1_env (publishing_process (RabbitMQEventPublisher down_client [])) ''s1'' ''u1'') =
     Inr s1_locked"
proof -
  note inst = publish_never_raises [where env = s1_env and c = down_client and logged = "[]"
      and queue = EVENT_QUEUES_TICKET_GENERATION and event = s1_sold_event
      and p = "RabbitMQEventPublisher down_client []" and w = fresh_process
      and i = "''s1''" and u = "''u1''"]
  have none: "fresh_process\<lparr>eventPublisher := None\<rparr> = fresh_process"
    by (simp add: fresh_process_def)
  from inst down_publish have
    "publish s1_env (RabbitMQEventPublisher down_client []) EVENT_QUEUES_TICKET_GENERATION
        s1_sold_event =
      (Inr (),
       RabbitMQEventPublisher
         (snd (RabbitMQClient_publish down_client EVENT_QUEUES_TICKET_GENERATION s1_sold_event
                 ''req-1''))
         [(''error'', ''Failed to publish event'')])"
    by (simp add: s1_sold_event_cid split: prod.splits sum.splits)
  moreover from inst have
    "fst (lockSeat s1_env (publishing_process (RabbitMQEventPublisher down_client [])) ''s1'' ''u1'') =
       Inr s1_locked"
    by (simp add: publishing_process_def none fresh_lock)
  ultimately show ?thesis
    using down_publish by simp
qed


subsection \<open>The worker\<close>

lemmas worker_defs =
  onMessage_def try_block_def catch_block_def processSeatSoldEvent_def generatePDF_def
  sendEmailNotification_def logger_def and_then_def truthy_def Let_def

text \<open>
  What the callback does whenever the identifier it stores is a string: it settles the
  message with exactly one call, an acknowledgement after both tasks on full success
  and a negative acknowledgement with requeue otherwise.
\<close>

lemma onMessage_string_id:
  assumes "currentCorrelationId w = Str c" and "\<not> non_string_id msg"
  shows "fst (onMessage t fresh (Some msg) w) = Inr ()"
    and "calls (snd (onMessage t fresh (Some msg) w)) =
           calls w @ [if processed t msg then Ack msg else Nack msg False True]"
  using assms
  by (cases "body msg"; cases "header_correlationId msg";
      auto simp: worker_defs processed_def non_string_id_def
        split: scalar.splits option.splits content.splits)+

text \<open>What it does when the identifier is not a string: it throws, having made no call.\<close>

lemma onMessage_non_string_id:
  assumes "non_string_id msg"
  shows "fst (onMessage t fresh (Some msg) w) = Inl TypeError"
    and "calls (snd (onMessage t fresh (Some msg) w)) = calls w"
  using assms
  by (cases "body msg"; cases "header_correlationId msg";
      auto simp: worker_defs non_string_id_def
        split: scalar.splits option.splits content.splits)+

text \<open>
  C9. The claim: for every message the worker receives, it acknowledges the message on
  full success and negatively acknowledges it with requeue on any processing failure,
  so that the message is redelivered and never dropped. The code departs from it: for
  the sold message whose content carries the number 123 as its \<^verbatim>\<open>correlationId\<close>
  and which has no correlation header, with tasks that would not throw, the first log
  line of the \<^verbatim>\<open>try\<close> block throws a type error, the log line that opens the
  \<^verbatim>\<open>catch\<close> block throws it again, and the callback ends in that error having called
  neither ack nor nack; no task has run and, at the broker, the message stays delivered
  and unsettled: it is neither removed nor returned to the queue.
\<close>

theorem worker_leaves_message_unsettled:
  "non_string_id numbered_message \<and>
   onMessage sound_tasks ''fresh'' (Some numbered_message) idle_worker =
     (Inl TypeError, idle_worker) \<and>
   calls (snd (onMessage sound_tasks ''fresh'' (Some numbered_message) idle_worker)) = [] \<and>
   fst (consume_one sound_tasks ''fresh'' \<lparr>ready = [numbered_message], unacked = []\<rparr>
          idle_worker) =
     \<lparr>ready = [], unacked = [numbered_message]\<rparr>"
  by (simp add: worker_defs non_string_id_def numbered_message_def idle_worker_def
      sound_tasks_def consume_one_def deliver_def)

text \<open>The same message with a string as its identifier is processed and acknowledged.\<close>

lemma worker_acknowledges_sold_message:
  "calls (snd (onMessage sound_tasks ''fresh'' (Some sold_message) idle_worker)) =
     [Ack sold_message] \<and>
   calls (snd (onMessage sound_tasks ''fresh'' (Some garbled_message) idle_worker)) =
     [Nack garbled_message False True]"
  using onMessage_string_id(2) [of idle_worker "''idle''" sold_message sound_tasks "''fresh''"]
    onMessage_string_id(2) [of idle_worker "''idle''" garbled_message sound_tasks "''fresh''"]
  by (simp add: processed_def non_string_id_def sold_message_def garbled_message_def
      idle_worker_def sound_tasks_def)

end
